theory Spec2Isabelle
  imports Complex_Main "HOL-Library.Stream"
begin

section \<open>Photo-pion production (src/module/PhotoPionProduction.cpp)\<close>

text \<open>
  A finite value of the C++ type \<^verbatim>\<open>double\<close> is idealised as a \<^typ>\<open>real\<close>: rounding
  and overflow are not represented. The source divides by computed rates without any
  test, so the quantities that such a quotient reaches (the sampled distance, the
  remaining step, the step limit, the loss length) have the type \<open>dbl\<close>, which adds the
  two infinities and NaN with the IEEE rules for them; zero is not signed and counts as
  +0. The inputs (energy, redshift, rates, the step of the candidate) are finite.
  \<^verbatim>\<open>int\<close> is idealised as \<^typ>\<open>int\<close> (mass and charge numbers are far from the 32-bit
  bounds). Undefined behaviour of the C++ code (\<^verbatim>\<open>front()\<close> of an empty vector,
  reading the uninitialised \<^verbatim>\<open>channel\<close>) is an error value of the model. The energy
  of a particle stays a finite number: in \<^verbatim>\<open>performInteraction\<close>, which is only
  reached for the id of a nucleus, the quotient \<^verbatim>\<open>E / A\<close> by a mass number zero is an
  error value as well.
\<close>

subsection \<open>Data model\<close>

datatype PhotonField =
  CMB | IRB | IRB_Kneiske04 | IRB_Kneiske10 | IRB_Stecker05 | IRB_Franceschini08
  | IRB_withRedshift_Kneiske04

datatype error =
  CouldNotOpenFile string
  | UnexpectedParticle int
  | DivisionByZero
  | EmptyTable
  | UninitializedChannel

text \<open>The members of the class \<^verbatim>\<open>PhotoPionProduction\<close>.\<close>

record PhotoPionProduction =
  photonField :: PhotonField
  havePhotons :: bool
  haveNeutrinos :: bool
  haveAntiNucleons :: bool
  doRedshiftDependent :: bool
  limit :: real
  tabLorentz :: "real list"
  tabRedshifts :: "real list"
  tabProtonRate :: "real list"
  tabNeutronRate :: "real list"

text \<open>The quotient \<^verbatim>\<open>E / A\<close> of \<^verbatim>\<open>performInteraction\<close> (see above).\<close>

definition fdiv :: "real \<Rightarrow> real \<Rightarrow> error + real" where
  "fdiv x y = (if y = 0 then Inl DivisionByZero else Inr (x / y))"

subsection \<open>Doubles with infinities and NaN\<close>

datatype dbl = Fin real | PInf | MInf | NaN

text \<open>\<^verbatim>\<open>std::numeric_limits<double>::max()\<close> of an IEEE binary64 double.\<close>

definition DBL_MAX :: dbl where
  "DBL_MAX = Fin ((2 - 1 / 2 ^ 52) * 2 ^ 1023)"

text \<open>\<^verbatim>\<open>log(x)\<close> of a finite double: minus infinity at zero, NaN below.\<close>

definition dlog :: "real \<Rightarrow> dbl" where
  "dlog x = (if 0 < x then Fin (ln x) else if x = 0 then MInf else NaN)"

text \<open>Unary minus.\<close>

fun dneg :: "dbl \<Rightarrow> dbl" where
  "dneg (Fin x) = Fin (- x)"
| "dneg PInf = MInf"
| "dneg MInf = PInf"
| "dneg NaN = NaN"

text \<open>
  \<^verbatim>\<open>x / y\<close>: a nonzero finite number divided by zero is an infinity of its sign,
  \<^verbatim>\<open>0 / 0\<close> and \<^verbatim>\<open>inf / inf\<close> are NaN.
\<close>

fun ddiv :: "dbl \<Rightarrow> dbl \<Rightarrow> dbl" where
  "ddiv NaN y = NaN"
| "ddiv x NaN = NaN"
| "ddiv (Fin x) (Fin y) =
     (if y \<noteq> 0 then Fin (x / y) else if 0 < x then PInf else if x < 0 then MInf else NaN)"
| "ddiv (Fin x) PInf = Fin 0"
| "ddiv (Fin x) MInf = Fin 0"
| "ddiv PInf (Fin y) = (if 0 \<le> y then PInf else MInf)"
| "ddiv MInf (Fin y) = (if 0 \<le> y then MInf else PInf)"
| "ddiv PInf PInf = NaN"
| "ddiv PInf MInf = NaN"
| "ddiv MInf PInf = NaN"
| "ddiv MInf MInf = NaN"

text \<open>\<^verbatim>\<open>x * y\<close>: zero times an infinity is NaN.\<close>

fun dmul :: "dbl \<Rightarrow> dbl \<Rightarrow> dbl" where
  "dmul NaN y = NaN"
| "dmul x NaN = NaN"
| "dmul (Fin x) (Fin y) = Fin (x * y)"
| "dmul (Fin x) PInf = (if 0 < x then PInf else if x < 0 then MInf else NaN)"
| "dmul (Fin x) MInf = (if 0 < x then MInf else if x < 0 then PInf else NaN)"
| "dmul PInf (Fin y) = (if 0 < y then PInf else if y < 0 then MInf else NaN)"
| "dmul MInf (Fin y) = (if 0 < y then MInf else if y < 0 then PInf else NaN)"
| "dmul PInf PInf = PInf"
| "dmul PInf MInf = MInf"
| "dmul MInf PInf = MInf"
| "dmul MInf MInf = PInf"

text \<open>\<^verbatim>\<open>x - y\<close>: the difference of two equal infinities is NaN.\<close>

fun dsub :: "dbl \<Rightarrow> dbl \<Rightarrow> dbl" where
  "dsub NaN y = NaN"
| "dsub x NaN = NaN"
| "dsub (Fin x) (Fin y) = Fin (x - y)"
| "dsub (Fin x) PInf = MInf"
| "dsub (Fin x) MInf = PInf"
| "dsub PInf (Fin y) = PInf"
| "dsub MInf (Fin y) = MInf"
| "dsub PInf PInf = NaN"
| "dsub PInf MInf = PInf"
| "dsub MInf PInf = MInf"
| "dsub MInf MInf = NaN"

text \<open>\<^verbatim>\<open>x < y\<close>: every comparison with NaN is false.\<close>

fun dless :: "dbl \<Rightarrow> dbl \<Rightarrow> bool" where
  "dless NaN y = False"
| "dless x NaN = False"
| "dless (Fin x) (Fin y) = (x < y)"
| "dless (Fin x) PInf = True"
| "dless (Fin x) MInf = False"
| "dless PInf y = False"
| "dless MInf (Fin y) = True"
| "dless MInf PInf = True"
| "dless MInf MInf = False"

subsection \<open>The input stream\<close>

text \<open>
  \<^verbatim>\<open>init(filename)\<close> reads the table through a \<^verbatim>\<open>std::ifstream\<close>. The text of the
  file is modelled after lexing: \<open>Num x\<close> is a maximal piece of text that
  \<^verbatim>\<open>operator>>(double&)\<close> reads as the number \<open>x\<close>, \<open>Newline\<close> is the character
  \<^verbatim>\<open>'\n'\<close>, \<open>Space\<close> any other white space, \<open>Hash\<close> the character \<^verbatim>\<open>'#'\<close> and
  \<open>Other\<close> any character that is none of these and cannot start a number. The stream
  state is the unread text with the two state bits the code observes.
\<close>

datatype lexeme = Num real | Space | Newline | Hash | Other

record istream =
  buf :: "lexeme list"
  eofbit :: bool
  failbit :: bool

text \<open>\<^verbatim>\<open>infile.good()\<close>.\<close>

definition good :: "istream \<Rightarrow> bool" where
  "good s = (\<not> eofbit s \<and> \<not> failbit s)"

text \<open>\<^verbatim>\<open>infile.peek() != '#'\<close>: peeking at the end of the text sets \<^verbatim>\<open>eofbit\<close>.\<close>

definition peekNotHash :: "istream \<Rightarrow> bool \<times> istream" where
  "peekNotHash s =
     (if \<not> good s then (True, s\<lparr>failbit := True\<rparr>)
      else case buf s of
             [] \<Rightarrow> (True, s\<lparr>eofbit := True\<rparr>)
           | x # _ \<Rightarrow> (x \<noteq> Hash, s))"

definition isspace :: "lexeme \<Rightarrow> bool" where
  "isspace x = (x = Space \<or> x = Newline)"

text \<open>
  \<^verbatim>\<open>infile >> x\<close> for a double: a stream that is not good only gets \<^verbatim>\<open>failbit\<close>;
  otherwise white space is skipped and a number is read. Reading a number that ends
  with the text sets \<^verbatim>\<open>eofbit\<close>. \<open>None\<close> is a failed extraction.
\<close>

definition extractDouble :: "istream \<Rightarrow> real option \<times> istream" where
  "extractDouble s =
     (if \<not> good s then (None, s\<lparr>failbit := True\<rparr>)
      else case dropWhile isspace (buf s) of
             [] \<Rightarrow> (None, s\<lparr>buf := [], eofbit := True, failbit := True\<rparr>)
           | Num x # r \<Rightarrow> (Some x, s\<lparr>buf := r, eofbit := (r = [])\<rparr>)
           | l # r \<Rightarrow> (None, s\<lparr>buf := l # r, failbit := True\<rparr>))"

text \<open>\<^verbatim>\<open>infile.ignore(std::numeric_limits<std::streamsize>::max(), '\n')\<close>.\<close>

definition ignoreLine :: "istream \<Rightarrow> istream" where
  "ignoreLine s =
     (if \<not> good s then s\<lparr>failbit := True\<rparr>
      else case dropWhile (\<lambda>x. x \<noteq> Newline) (buf s) of
             [] \<Rightarrow> s\<lparr>buf := [], eofbit := True\<rparr>
           | _ # r \<Rightarrow> s\<lparr>buf := r\<rparr>)"

subsection \<open>Nucleus modification (lines 127-133)\<close>

text \<open>
  \<^verbatim>\<open>pow(X, 2. / 3.)\<close> is \<open>powr\<close> on the reals; \<open>X\<close> is converted from \<^verbatim>\<open>int\<close>.
  Nucleon counts are not negative (\<^verbatim>\<open>pow\<close> of a negative \<open>X\<close> is a NaN).
\<close>

definition nucleiModification :: "int \<Rightarrow> int \<Rightarrow> real" where
  "nucleiModification A X =
     (if A = 1 then 1
      else if A \<le> 8 then 0.85 * (real_of_int X) powr (2 / 3)
      else 0.85 * real_of_int X)"

subsection \<open>The candidate\<close>

text \<open>
  Modelled from the spec: the classes \<^verbatim>\<open>Candidate\<close> and \<^verbatim>\<open>ParticleState\<close> are declared
  outside this source file. The spec describes the candidate as the current particle
  identity and energy, the redshift, the remaining step length, the next permitted step
  and an append-only ordered sequence of secondaries (id, energy). \<open>setEnergy\<close> and
  \<open>setId\<close> replace the field, \<open>addSecondary\<close> appends, and \<open>limitNextStep\<close> caps the
  next permitted step: it keeps the smaller of the old value and its argument, as
  \<^verbatim>\<open>std::min(nextStep, step)\<close> does, which returns \<^verbatim>\<open>step\<close> only if it compares
  less.
\<close>

record ParticleState =
  particleId :: int
  energy :: real

record Candidate =
  current :: ParticleState
  redshift :: real
  currentStep :: real
  nextStep :: dbl
  secondaries :: "(int \<times> real) list"

definition setEnergy :: "Candidate \<Rightarrow> real \<Rightarrow> Candidate" where
  "setEnergy c e = c\<lparr>current := (current c)\<lparr>energy := e\<rparr>\<rparr>"

definition setId :: "Candidate \<Rightarrow> int \<Rightarrow> Candidate" where
  "setId c i = c\<lparr>current := (current c)\<lparr>particleId := i\<rparr>\<rparr>"

definition addSecondary :: "Candidate \<Rightarrow> int \<Rightarrow> real \<Rightarrow> Candidate" where
  "addSecondary c i e = c\<lparr>secondaries := secondaries c @ [(i, e)]\<rparr>"

definition limitNextStep :: "Candidate \<Rightarrow> dbl \<Rightarrow> Candidate" where
  "limitNextStep c s = c\<lparr>nextStep := (if dless s (nextStep c) then s else nextStep c)\<rparr>"

subsection \<open>External collaborators\<close>

text \<open>
  Everything the source file calls but does not define is a parameter of the model: the
  unit constants \<^verbatim>\<open>Mpc\<close> and \<^verbatim>\<open>GeV\<close> (nonzero constants of Units.h), the particle-id
  helpers of ParticleID.h, \<^verbatim>\<open>ParticleState::getLorentzFactor\<close>, the interpolation
  routines, \<^verbatim>\<open>photonFieldScaling\<close> and the event generator \<^verbatim>\<open>sophiaevent_\<close>.
  The generator draws its own random numbers, so it threads a state of type \<open>'g\<close>; from
  its inputs (nature, Ein, z, background, maxRedshift) it yields, for each of the
  \<^verbatim>\<open>nParticles\<close> outgoing particles in order, the pair of \<^verbatim>\<open>particleList[i]\<close> and
  \<^verbatim>\<open>momentaList[3][i]\<close>.
\<close>

record 'g ext =
  Mpc :: real
  GeV :: real
  isNucleus :: "int \<Rightarrow> bool"
  massNumber :: "int \<Rightarrow> int"
  chargeNumber :: "int \<Rightarrow> int"
  nucleusId :: "int \<Rightarrow> int \<Rightarrow> int"
  getLorentzFactor :: "ParticleState \<Rightarrow> real"
  interpolate :: "real \<Rightarrow> real list \<Rightarrow> real list \<Rightarrow> real"
  interpolate2d :: "real \<Rightarrow> real \<Rightarrow> real list \<Rightarrow> real list \<Rightarrow> real list \<Rightarrow> real"
  photonFieldScaling :: "PhotonField \<Rightarrow> real \<Rightarrow> real"
  sophiaevent :: "'g \<Rightarrow> int \<Rightarrow> real \<Rightarrow> real \<Rightarrow> int \<Rightarrow> real \<Rightarrow> (int \<times> real) list \<times> 'g"

text \<open>\<^verbatim>\<open>Random::rand()\<close>: the next variate is the head of a stream of draws.\<close>

type_synonym rng = "real stream"

subsection \<open>Interaction (lines 201-289)\<close>

text \<open>
  The body of the loop over the outgoing particles (lines 234-287): the switch on the
  particle code. \<open>A\<close>, \<open>Z\<close>, \<open>E\<close>, \<open>EpA\<close> and \<open>sign\<close> are the locals computed once
  before the loop; the pair is \<^verbatim>\<open>particleList[i]\<close> and \<^verbatim>\<open>momentaList[3][i]\<close>.
\<close>

definition translateParticle ::
  "'g ext \<Rightarrow> PhotoPionProduction \<Rightarrow> int \<Rightarrow> int \<Rightarrow> real \<Rightarrow> real \<Rightarrow> int \<Rightarrow> int \<Rightarrow>
   int \<times> real \<Rightarrow> Candidate \<Rightarrow> error + Candidate" where
  "translateParticle env m A Z E EpA sign channel out c =
     (let (pType, p3) = out;
          Eout = p3 * GeV env
      in if pType = 13 \<or> pType = 14 then
           (if A = 1 then
              Inr (setId (setEnergy c Eout) (sign * nucleusId env 1 (14 - pType)))
            else
              Inr (addSecondary
                     (setId (setEnergy c (E - EpA))
                        (sign * nucleusId env (A - 1) (Z - channel)))
                     (sign * nucleusId env 1 (14 - pType)) Eout))
         else if pType = - 13 \<or> pType = - 14 then
           Inr (if haveAntiNucleons m
                then addSecondary c (- sign * nucleusId env 1 (14 + pType)) Eout else c)
         else if pType = 1 then
           Inr (if havePhotons m then addSecondary c 22 Eout else c)
         else if pType = 2 then
           Inr (if havePhotons m then addSecondary c (sign * - 11) Eout else c)
         else if pType = 3 then
           Inr (if havePhotons m then addSecondary c (sign * 11) Eout else c)
         else if pType = 15 then
           Inr (if haveNeutrinos m then addSecondary c (sign * 12) Eout else c)
         else if pType = 16 then
           Inr (if haveNeutrinos m then addSecondary c (sign * - 12) Eout else c)
         else if pType = 17 then
           Inr (if haveNeutrinos m then addSecondary c (sign * 14) Eout else c)
         else if pType = 18 then
           Inr (if haveNeutrinos m then addSecondary c (sign * - 14) Eout else c)
         else Inl (UnexpectedParticle pType))"

text \<open>
  The for loop (line 233): particles are translated in order until one throws. The error
  value stands for the propagating exception; it does not carry the candidate as modified
  by the particles before the throw.
\<close>

fun translateParticles ::
  "'g ext \<Rightarrow> PhotoPionProduction \<Rightarrow> int \<Rightarrow> int \<Rightarrow> real \<Rightarrow> real \<Rightarrow> int \<Rightarrow> int \<Rightarrow>
   (int \<times> real) list \<Rightarrow> Candidate \<Rightarrow> error + Candidate" where
  "translateParticles env m A Z E EpA sign channel [] c = Inr c"
| "translateParticles env m A Z E EpA sign channel (out # rest) c =
     (case translateParticle env m A Z E EpA sign channel out c of
        Inl e \<Rightarrow> Inl e
      | Inr c' \<Rightarrow> translateParticles env m A Z E EpA sign channel rest c')"

definition performInteraction ::
  "'g ext \<Rightarrow> PhotoPionProduction \<Rightarrow> Candidate \<Rightarrow> int \<Rightarrow> 'g \<Rightarrow> error + Candidate \<times> 'g" where
  "performInteraction env m c channel gen =
     (let pid = particleId (current c);
          A = massNumber env pid;
          Z = chargeNumber env pid;
          E = energy (current c)
      in case fdiv E (real_of_int A) of
           Inl e \<Rightarrow> Inl e
         | Inr EpA \<Rightarrow>
             (let z = redshift c;
                  sign = (if pid > 0 then 1 else - 1);
                  nature = 1 - channel;
                  Ein = EpA / GeV env;
                  maxRedshift = 100;
                  background = (if photonField m = CMB then 1 else 2);
                  (outs, gen') = sophiaevent env gen nature Ein z background maxRedshift
              in case translateParticles env m A Z E EpA sign channel outs c of
                   Inl e \<Rightarrow> Inl e
                 | Inr c' \<Rightarrow> Inr (c', gen')))"

subsection \<open>The stochastic step (lines 135-199)\<close>

text \<open>
  The rate of one channel (lines 166-169 for protons, 177-180 for neutrons; the two
  blocks differ only in the rate table and the nucleon count \<open>X\<close>).
\<close>

definition channelRate ::
  "'g ext \<Rightarrow> PhotoPionProduction \<Rightarrow> real \<Rightarrow> real \<Rightarrow> real \<Rightarrow> real list \<Rightarrow> int \<Rightarrow> int \<Rightarrow> real"
  where
  "channelRate env m z gamma scaling tab A X =
     (if \<not> doRedshiftDependent m
      then scaling * interpolate env gamma (tabLorentz m) tab
      else interpolate2d env z gamma (tabRedshifts m) (tabLorentz m) tab)
     * nucleiModification A X"

text \<open>Lines 172 and 182: \<^verbatim>\<open>-log(random.rand()) / rate\<close> for the draw \<open>u\<close>.\<close>

definition channelDistance :: "real \<Rightarrow> real \<Rightarrow> dbl" where
  "channelDistance u rate = ddiv (dneg (dlog u)) (Fin rate)"

text \<open>
  Lines 151-187: the sampled distance of each available channel and the minimum. The
  result is \<^verbatim>\<open>randDistance\<close>, \<^verbatim>\<open>channel\<close> (\<open>None\<close> while the C++ variable is
  uninitialised), \<^verbatim>\<open>totalRate\<close> and the random stream after the draws.
\<close>

definition sampleChannels ::
  "'g ext \<Rightarrow> PhotoPionProduction \<Rightarrow> real \<Rightarrow> real \<Rightarrow> int \<Rightarrow> rng \<Rightarrow>
   dbl \<times> int option \<times> real \<times> rng" where
  "sampleChannels env m z gamma pid random =
     (let randDistance = DBL_MAX;
          channel = None;
          totalRate = 0;
          scaling = (1 + z) ^ 2 * photonFieldScaling env (photonField m) z;
          A = massNumber env pid;
          Z = chargeNumber env pid;
          N = A - Z;
          (randDistance, channel, totalRate, random) =
            (if Z > 0 then
               (let rate = channelRate env m z gamma scaling (tabProtonRate m) A Z
                in (channelDistance (shd random) rate, Some 1, totalRate + rate, stl random))
             else (randDistance, channel, totalRate, random))
      in if N > 0 then
           (let rate = channelRate env m z gamma scaling (tabNeutronRate m) A N;
                totalRate = totalRate + rate;
                d = channelDistance (shd random) rate
            in if dless d randDistance
               then (d, Some 0, totalRate, stl random)
               else (randDistance, channel, totalRate, stl random))
         else (randDistance, channel, totalRate, random))"

text \<open>
  One pass through the body of the do-while loop: either \<^verbatim>\<open>process\<close> returns, or the
  loop condition is evaluated on the reduced step.
\<close>

datatype 's iteration = Return 's | Repeat dbl 's

definition processBody ::
  "'g ext \<Rightarrow> PhotoPionProduction \<Rightarrow> dbl \<Rightarrow> Candidate \<times> rng \<times> 'g \<Rightarrow>
   error + (Candidate \<times> rng \<times> 'g) iteration" where
  "processBody env m step s =
     (let (candidate, random, gen) = s;
          pid = particleId (current candidate)
      in if \<not> isNucleus env pid then Inr (Return s)
         else
           (let z = redshift candidate;
                gamma = (1 + z) * getLorentzFactor env (current candidate)
            in if tabLorentz m = [] then Inl EmptyTable
               else if gamma < hd (tabLorentz m) \<or> gamma > last (tabLorentz m)
               then Inr (Return s)
               else
                 (let (randDistance, channel, totalRate, random') =
                        sampleChannels env m z gamma pid random
                  in if dless step randDistance then
                       Inr (Return (limitNextStep candidate
                                      (ddiv (Fin (limit m)) (Fin totalRate)),
                                    random', gen))
                     else
                       (case channel of
                          None \<Rightarrow> Inl UninitializedChannel
                        | Some ch \<Rightarrow>
                            (case performInteraction env m candidate ch gen of
                               Inl e \<Rightarrow> Inl e
                             | Inr (candidate', gen') \<Rightarrow>
                                 Inr (Repeat (dsub step randDistance)
                                        (candidate', random', gen')))))))"

text \<open>
  The do-while loop. It need not terminate (the sampled distances may shrink for ever),
  so the result is an option: \<open>None\<close> is a run that never returns.
\<close>

partial_function (option) processLoop ::
  "'g ext \<Rightarrow> PhotoPionProduction \<Rightarrow> dbl \<Rightarrow> Candidate \<times> rng \<times> 'g \<Rightarrow>
   (error + Candidate \<times> rng \<times> 'g) option" where
  "processLoop env m step s =
     (case processBody env m step s of
        Inl e \<Rightarrow> Some (Inl e)
      | Inr (Return s') \<Rightarrow> Some (Inr s')
      | Inr (Repeat step' s') \<Rightarrow>
          if dless (Fin 0) step' then processLoop env m step' s' else Some (Inr s'))"

definition process ::
  "'g ext \<Rightarrow> PhotoPionProduction \<Rightarrow> Candidate \<Rightarrow> rng \<Rightarrow> 'g \<Rightarrow>
   (error + Candidate \<times> rng \<times> 'g) option" where
  "process env m candidate random gen =
     processLoop env m (Fin (currentStep candidate)) (candidate, random, gen)"

subsection \<open>Loss length (lines 291-317)\<close>

definition lossLength ::
  "'g ext \<Rightarrow> PhotoPionProduction \<Rightarrow> int \<Rightarrow> real \<Rightarrow> real \<Rightarrow> error + dbl" where
  "lossLength env m pid gamma0 z =
     (let A = massNumber env pid;
          Z = chargeNumber env pid;
          N = A - Z;
          gamma = gamma0 * (1 + z)
      in if tabLorentz m = [] then Inl EmptyTable
         else if gamma < hd (tabLorentz m) \<or> gamma > last (tabLorentz m) then Inr DBL_MAX
         else
           (let lossRate = 0;
                lossRate =
                  (if Z > 0
                   then lossRate + interpolate env gamma (tabLorentz m) (tabProtonRate m)
                                   * nucleiModification A Z
                   else lossRate);
                lossRate =
                  (if N > 0
                   then lossRate + interpolate env gamma (tabLorentz m) (tabProtonRate m)
                                   * nucleiModification A N
                   else lossRate);
                relativeEnergyLoss =
                  (if A = 1 then Fin (1 - 938 / 1232) else ddiv (Fin 1) (Fin (real_of_int A)));
                lossRate = dmul (Fin lossRate) relativeEnergyLoss;
                lossRate = dmul lossRate
                             (Fin ((1 + z) ^ 3 * photonFieldScaling env (photonField m) z))
            in Inr (ddiv (Fin 1) lossRate)))"

subsection \<open>Table loading (lines 83-125)\<close>

text \<open>The locals of \<^verbatim>\<open>init(filename)\<close>. \<open>zOld\<close> is \<open>None\<close> when it holds an
  indeterminate value (it is assigned from the unread \<^verbatim>\<open>z\<close> for redshift-independent
  tables).\<close>

record initLocals =
  infile :: istream
  zOld :: "real option"
  aOld :: real
  doReadLorentz :: bool

text \<open>Lines 106-115: one successfully read row.\<close>

definition pushRow ::
  "'g ext \<Rightarrow> real option \<Rightarrow> real \<Rightarrow> real \<Rightarrow> real \<Rightarrow> PhotoPionProduction \<times> initLocals \<Rightarrow>
   PhotoPionProduction \<times> initLocals" where
  "pushRow env z a b c ml =
     (let (m, l) = ml;
          m = (case z of
                 Some zv \<Rightarrow>
                   if doRedshiftDependent m \<and> z \<noteq> zOld l
                   then m\<lparr>tabRedshifts := tabRedshifts m @ [zv]\<rparr> else m
               | None \<Rightarrow> m);
          l = (if a < aOld l then l\<lparr>doReadLorentz := False\<rparr> else l);
          m = (if doReadLorentz l then m\<lparr>tabLorentz := tabLorentz m @ [10 powr a]\<rparr> else m);
          m = m\<lparr>tabProtonRate := tabProtonRate m @ [b / Mpc env]\<rparr>;
          m = m\<lparr>tabNeutronRate := tabNeutronRate m @ [c / Mpc env]\<rparr>
      in (m, l\<lparr>zOld := z, aOld := a\<rparr>))"

text \<open>
  Lines 100-104: \<^verbatim>\<open>infile >> a >> b >> c\<close>, preceded by \<^verbatim>\<open>infile >> z\<close> for a
  redshift-dependent table. A variable that was not read is \<open>None\<close>.
\<close>

definition readRow ::
  "bool \<Rightarrow> istream \<Rightarrow> (real option \<times> real option \<times> real option \<times> real option) \<times> istream"
  where
  "readRow redshiftDependent s =
     (let (z, s) = (if \<not> redshiftDependent then (None, s) else extractDouble s);
          (a, s) = extractDouble s;
          (b, s) = extractDouble s;
          (c, s) = extractDouble s
      in ((z, a, b, c), s))"

text \<open>Lines 99-118: the body of the while loop.\<close>

definition initBody ::
  "'g ext \<Rightarrow> PhotoPionProduction \<times> initLocals \<Rightarrow> PhotoPionProduction \<times> initLocals" where
  "initBody env ml =
     (let (m, l) = ml;
          (notHash, s) = peekNotHash (infile l);
          (m, l) =
            (if notHash then
               (let ((z, a, b, c), s) = readRow (doRedshiftDependent m) s
                in if \<not> failbit s then
                     (case (a, b, c) of
                        (Some a, Some b, Some c) \<Rightarrow> pushRow env z a b c (m, l\<lparr>infile := s\<rparr>)
                      | _ \<Rightarrow> (m, l\<lparr>infile := s\<rparr>))
                   else (m, l\<lparr>infile := s\<rparr>))
             else (m, l\<lparr>infile := s\<rparr>))
      in (m, l\<lparr>infile := ignoreLine (infile l)\<rparr>))"

function initLoop ::
  "'g ext \<Rightarrow> PhotoPionProduction \<times> initLocals \<Rightarrow> PhotoPionProduction \<times> initLocals" where
  "initLoop env ml =
     (if good (infile (snd ml)) then initLoop env (initBody env ml) else ml)"
  by pat_completeness auto

text \<open>
  The file system maps a file name to the lexed text of the file, \<open>None\<close> for a file that
  cannot be opened. The result is the exception thrown, if any, and the module after
  the call.
\<close>

definition init ::
  "'g ext \<Rightarrow> (string \<Rightarrow> lexeme list option) \<Rightarrow> string \<Rightarrow> PhotoPionProduction \<Rightarrow>
   error option \<times> PhotoPionProduction" where
  "init env fs filename m =
     (case fs filename of
        None \<Rightarrow> (Some (CouldNotOpenFile filename), m)
      | Some content \<Rightarrow>
          (let m = m\<lparr>tabLorentz := [], tabRedshifts := [], tabProtonRate := [],
                     tabNeutronRate := []\<rparr>;
               l = \<lparr>infile = \<lparr>buf = content, eofbit = False, failbit = False\<rparr>,
                    zOld = Some (- 1), aOld = - 1, doReadLorentz = True\<rparr>
           in (None, fst (initLoop env (m, l)))))"

subsection \<open>Auxiliary notions for the statements\<close>

text \<open>The codes the switch accepts other than the nucleon codes 13 and 14.\<close>

definition isOtherProduct :: "int \<Rightarrow> bool" where
  "isOtherProduct pType =
     (pType = - 13 \<or> pType = - 14 \<or> pType = 1 \<or> pType = 2 \<or> pType = 3 \<or> pType = 15
      \<or> pType = 16 \<or> pType = 17 \<or> pType = 18)"

text \<open>
  Modelled from the spec: the format contract of a rate table file. Lines beginning with
  \<^verbatim>\<open>#\<close> are comments; every other line is a data line holding the numbers
  \<^verbatim>\<open>log10(gamma) protonRateRaw neutronRateRaw\<close>, preceded by \<^verbatim>\<open>z\<close> for a
  redshift-dependent field. \<open>renderFile\<close> is the lexed text of such a file, every
  line ended by a newline; \<open>dataRows\<close> are its non-comment rows in order.
\<close>

datatype fileLine = CommentLine "lexeme list" | DataLine real real real real

fun renderLine :: "bool \<Rightarrow> fileLine \<Rightarrow> lexeme list" where
  "renderLine redshiftDependent (CommentLine body) = Hash # body @ [Newline]"
| "renderLine redshiftDependent (DataLine z a b c) =
     (if redshiftDependent then [Num z, Space] else [])
     @ [Num a, Space, Num b, Space, Num c, Newline]"

definition renderFile :: "bool \<Rightarrow> fileLine list \<Rightarrow> lexeme list" where
  "renderFile redshiftDependent lines = concat (map (renderLine redshiftDependent) lines)"

fun wellFormedLine :: "fileLine \<Rightarrow> bool" where
  "wellFormedLine (CommentLine body) = (Newline \<notin> set body)"
| "wellFormedLine (DataLine z a b c) = True"

fun dataRows :: "fileLine list \<Rightarrow> (real \<times> real \<times> real \<times> real) list" where
  "dataRows [] = []"
| "dataRows (CommentLine body # lines) = dataRows lines"
| "dataRows (DataLine z a b c # lines) = (z, a, b, c) # dataRows lines"

text \<open>The longest prefix of a list in which no element is smaller than its predecessor,
  \<open>prev\<close> being the predecessor of the first element.\<close>

fun ascendingRun :: "real \<Rightarrow> real list \<Rightarrow> real list" where
  "ascendingRun prev [] = []"
| "ascendingRun prev (a # as) = (if a < prev then [] else a # ascendingRun a as)"

subsection \<open>A concrete instance of the collaborators\<close>

text \<open>
  The model is run on concrete inputs with the following instance of the external
  parameters. It is sample data, not part of the verified code: nuclei are numbered
  10LZZZAAAI as in the PDG scheme, energies are in units of the nucleon rest energy,
  \<^verbatim>\<open>GeV\<close> and \<^verbatim>\<open>Mpc\<close> are the units, the photon density does not evolve, the
  interpolation is linear between neighbouring grid points and the generator returns a
  fixed event and counts its calls.
\<close>

definition pdgNucleusId :: "int \<Rightarrow> int \<Rightarrow> int" where
  "pdgNucleusId a z = 1000000000 + z * 10000 + a * 10"

definition pdgMassNumber :: "int \<Rightarrow> int" where
  "pdgMassNumber pid = (\<bar>pid\<bar> div 10) mod 1000"

definition pdgChargeNumber :: "int \<Rightarrow> int" where
  "pdgChargeNumber pid = (\<bar>pid\<bar> div 10000) mod 1000"

definition pdgIsNucleus :: "int \<Rightarrow> bool" where
  "pdgIsNucleus pid = (1000000000 \<le> \<bar>pid\<bar>)"

fun linearInterpolate :: "real \<Rightarrow> real list \<Rightarrow> real list \<Rightarrow> real" where
  "linearInterpolate x (x0 # x1 # xs) (y0 # y1 # ys) =
     (if x \<le> x1 \<or> xs = [] then y0 + (x - x0) * (y1 - y0) / (x1 - x0)
      else linearInterpolate x (x1 # xs) (y1 # ys))"
| "linearInterpolate x xs (y0 # ys) = y0"
| "linearInterpolate x xs [] = 0"

definition sampleEnv :: "(int \<times> real) list \<Rightarrow> nat ext" where
  "sampleEnv outs =
     \<lparr>Mpc = 1, GeV = 1, isNucleus = pdgIsNucleus, massNumber = pdgMassNumber,
      chargeNumber = pdgChargeNumber, nucleusId = pdgNucleusId,
      getLorentzFactor = (\<lambda>p. energy p / real_of_int (pdgMassNumber (particleId p))),
      interpolate = linearInterpolate,
      interpolate2d = (\<lambda>z gamma zs gammas rates. linearInterpolate gamma gammas rates),
      photonFieldScaling = (\<lambda>field z. 1),
      sophiaevent = (\<lambda>gen nature Ein z background maxRedshift. (outs, Suc gen))\<rparr>"

definition sampleModule :: PhotoPionProduction where
  "sampleModule =
     \<lparr>photonField = CMB, havePhotons = True, haveNeutrinos = True, haveAntiNucleons = True,
      doRedshiftDependent = False, limit = 1 / 10, tabLorentz = [10, 30],
      tabRedshifts = [], tabProtonRate = [2, 4], tabNeutronRate = [1, 3]\<rparr>"

definition sampleCandidate :: "int \<Rightarrow> real \<Rightarrow> real \<Rightarrow> Candidate" where
  "sampleCandidate pid E step =
     \<lparr>current = \<lparr>particleId = pid, energy = E\<rparr>, redshift = 0, currentStep = step,
      nextStep = Fin 1, secondaries = []\<rparr>"

section \<open>Verified properties\<close>

subsection \<open>The table reading loop terminates\<close>

lemma peekNotHash_buf: "buf (snd (peekNotHash s)) = buf s"
  by (simp add: peekNotHash_def split: list.splits)

lemma extractDouble_length: "length (buf (snd (extractDouble s))) \<le> length (buf s)"
proof -
  have "length (dropWhile isspace (buf s)) \<le> length (buf s)"
    by (rule length_dropWhile_le)
  then show ?thesis
    by (auto simp: extractDouble_def split: list.splits lexeme.splits)
qed

lemma pushRow_infile: "infile (snd (pushRow env z a b c (m, l))) = infile l"
  by (simp add: pushRow_def Let_def split: option.splits)

lemma pushRow_infile': "pushRow env z a b c (m, l) = (m', l') \<Longrightarrow> infile l' = infile l"
  using pushRow_infile[of env z a b c m l] by simp

lemma ignoreLine_fuel:
  "length (buf (ignoreLine s)) + (if good (ignoreLine s) then 1 else 0) < length (buf s) + 1"
proof (cases "good s")
  case False
  then show ?thesis by (simp add: ignoreLine_def good_def)
next
  case True
  have le: "length (dropWhile (\<lambda>x. x \<noteq> Newline) (buf s)) \<le> length (buf s)"
    by (rule length_dropWhile_le)
  show ?thesis
  proof (cases "dropWhile (\<lambda>x. x \<noteq> Newline) (buf s)")
    case Nil
    show ?thesis using True by (simp add: ignoreLine_def good_def Nil)
  next
    case (Cons x r)
    show ?thesis using True le by (simp add: ignoreLine_def good_def Cons)
  qed
qed

lemma readRow_length: "length (buf (snd (readRow rd s))) \<le> length (buf s)"
proof -
  obtain z s1 where e1: "(if \<not> rd then (None, s) else extractDouble s) = (z, s1)"
    by (cases "(if \<not> rd then (None, s) else extractDouble s)")
  have s1: "length (buf s1) \<le> length (buf s)"
    using e1 extractDouble_length[of s] by (auto split: if_splits)
  obtain a s2 where e2: "extractDouble s1 = (a, s2)" by (cases "extractDouble s1")
  obtain b s3 where e3: "extractDouble s2 = (b, s3)" by (cases "extractDouble s2")
  obtain c s4 where e4: "extractDouble s3 = (c, s4)" by (cases "extractDouble s3")
  have s4: "length (buf s4) \<le> length (buf s)"
    using s1 extractDouble_length[of s1] extractDouble_length[of s2] extractDouble_length[of s3]
      e2 e3 e4 by simp
  have "readRow rd s = ((z, a, b, c), s4)"
    unfolding readRow_def e1 by (simp add: e2 e3 e4)
  then show ?thesis using s4 by simp
qed

lemma initBody_infile:
  "\<exists>s'. infile (snd (initBody env ml)) = ignoreLine s' \<and>
        length (buf s') \<le> length (buf (infile (snd ml)))"
proof -
  obtain m l where ml: "ml = (m, l)" by (cases ml)
  obtain nh s0 where p: "peekNotHash (infile l) = (nh, s0)" by (cases "peekNotHash (infile l)")
  have s0: "length (buf s0) \<le> length (buf (infile l))"
    using peekNotHash_buf[of "infile l"] p by simp
  obtain z a b c s4 where r: "readRow (doRedshiftDependent m) s0 = ((z, a, b, c), s4)"
    by (metis prod.exhaust)
  have s4: "length (buf s4) \<le> length (buf s0)"
    using readRow_length[of "doRedshiftDependent m" s0] r by simp
  have "infile (snd (initBody env ml)) = ignoreLine s0 \<or>
        infile (snd (initBody env ml)) = ignoreLine s4"
    unfolding ml initBody_def
    by (auto simp: p r Let_def split: option.splits prod.splits dest: pushRow_infile')
  then show ?thesis using s0 s4 ml by auto
qed

termination initLoop
proof (relation "measure (\<lambda>(env, ml). length (buf (infile (snd ml)))
                    + (if good (infile (snd ml)) then 1 else 0))")
  show "wf (measure (\<lambda>(env :: 'a ext, ml). length (buf (infile (snd ml)))
                    + (if good (infile (snd ml)) then 1 else 0)))"
    by simp
next
  fix env :: "'a ext" and ml :: "PhotoPionProduction \<times> initLocals"
  assume g: "good (infile (snd ml))"
  obtain s' where s': "infile (snd (initBody env ml)) = ignoreLine s'"
    "length (buf s') \<le> length (buf (infile (snd ml)))"
    using initBody_infile by blast
  show "((env, initBody env ml), (env, ml)) \<in> measure (\<lambda>(env, ml). length (buf (infile (snd ml)))
                    + (if good (infile (snd ml)) then 1 else 0))"
    using ignoreLine_fuel[of s'] s' g by simp
qed

declare initLoop.simps [simp del]

subsection \<open>Nucleus modification\<close>

text \<open>
  C4. The nucleus modification factor is 1 for A = 1, 0.85 * X^(2/3) for 1 < A <= 8 and
  0.85 * X for A > 8; in particular nucleiModification 1 X = 1,
  nucleiModification 4 2 = 0.85 * 2^(2/3) and nucleiModification 16 8 = 0.85 * 8.
\<close>

theorem nucleiModification_cases:
  "(A = 1 \<longrightarrow> nucleiModification A X = 1) \<and>
   (1 < A \<and> A \<le> 8 \<longrightarrow> nucleiModification A X = 0.85 * (real_of_int X) powr (2 / 3)) \<and>
   (8 < A \<longrightarrow> nucleiModification A X = 0.85 * real_of_int X)"
  by (simp add: nucleiModification_def)

theorem nucleiModification_cases_witness:
  "nucleiModification 1 5 = 1 \<and>
   nucleiModification 4 2 = 0.85 * 2 powr (2 / 3) \<and>
   nucleiModification 16 8 = 0.85 * 8"
  using nucleiModification_cases [of 1 5] nucleiModification_cases [of 4 2]
    nucleiModification_cases [of 16 8]
  by simp

subsection \<open>Interaction translation\<close>

lemma translateParticles_append:
  "translateParticles env m A Z E EpA sign channel (xs @ ys) c =
     (case translateParticles env m A Z E EpA sign channel xs c of
        Inl e \<Rightarrow> Inl e
      | Inr c' \<Rightarrow> translateParticles env m A Z E EpA sign channel ys c')"
  by (induction xs arbitrary: c) (simp_all split: sum.splits)

lemma translateParticle_other:
  assumes "isOtherProduct (fst out)"
  shows "\<exists>s. length s \<le> 1 \<and> (\<forall>c. translateParticle env m A Z E EpA sign channel out c =
             Inr (c\<lparr>secondaries := secondaries c @ s\<rparr>))"
proof -
  obtain pType p3 where out: "out = (pType, p3)" by (cases out)
  define c0 :: Candidate where
    "c0 = \<lparr>current = \<lparr>particleId = 0, energy = 0\<rparr>, redshift = 0, currentStep = 0,
           nextStep = Fin 0, secondaries = []\<rparr>"
  define s where
    "s = (case translateParticle env m A Z E EpA sign channel out c0 of
            Inr c' \<Rightarrow> secondaries c' | Inl e \<Rightarrow> [])"
  have "length s \<le> 1"
    using assms unfolding s_def out c0_def
    by (auto simp: translateParticle_def addSecondary_def isOtherProduct_def)
  moreover have "translateParticle env m A Z E EpA sign channel out c =
             Inr (c\<lparr>secondaries := secondaries c @ s\<rparr>)" for c
    using assms unfolding s_def out c0_def
    by (auto simp: translateParticle_def addSecondary_def isOtherProduct_def)
  ultimately show ?thesis by blast
qed

lemma translateParticles_other:
  assumes "\<forall>q \<in> set xs. isOtherProduct (fst q)"
  shows "\<exists>s. length s \<le> length xs \<and> (\<forall>c. translateParticles env m A Z E EpA sign channel xs c =
             Inr (c\<lparr>secondaries := secondaries c @ s\<rparr>))"
  using assms
proof (induction xs)
  case Nil
  show ?case by (rule exI[of _ "[]"]) simp
next
  case (Cons x xs)
  from Cons.prems obtain s1 where s1: "length s1 \<le> 1"
    "\<And>c. translateParticle env m A Z E EpA sign channel x c =
             Inr (c\<lparr>secondaries := secondaries c @ s1\<rparr>)"
    using translateParticle_other[of x env m A Z E EpA sign channel] by auto
  from Cons obtain s2 where s2: "length s2 \<le> length xs"
    "\<And>c. translateParticles env m A Z E EpA sign channel xs c =
             Inr (c\<lparr>secondaries := secondaries c @ s2\<rparr>)"
    by auto
  show ?case
    by (rule exI[of _ "s1 @ s2"]) (use s1 s2 in simp)
qed


lemma translateParticle_nucleon_heavy:
  assumes "pType = 13 \<or> pType = 14" "A \<noteq> 1"
  shows "translateParticle env m A Z E EpA sign channel (pType, p) c =
     Inr (c\<lparr>current := \<lparr>particleId = sign * nucleusId env (A - 1) (Z - channel),
                         energy = E - EpA\<rparr>,
            secondaries := secondaries c @ [(sign * nucleusId env 1 (14 - pType), p * GeV env)]\<rparr>)"
  using assms by (auto simp: translateParticle_def addSecondary_def setId_def setEnergy_def)

lemma translateParticle_nucleon_bare:
  assumes "pType = 13 \<or> pType = 14"
  shows "translateParticle env m 1 Z E EpA sign channel (pType, p) c =
     Inr (c\<lparr>current := \<lparr>particleId = sign * nucleusId env 1 (14 - pType),
                         energy = p * GeV env\<rparr>\<rparr>)"
  using assms by (auto simp: translateParticle_def setId_def setEnergy_def)

text \<open>
  C1. A nucleus with mass number A > 1 interacts on a channel and the generator returns
  a nucleon code (13 or 14) among otherwise accepted codes. Then the candidate becomes
  the daughter nucleus of mass A - 1, with charge Z - 1 on the proton channel (channel 1)
  and charge Z on the neutron channel (channel 0), carrying the energy E - E/A, and one
  secondary nucleon with the energy Eout = p * GeV is appended, between the secondaries
  \<open>s1\<close> and \<open>s2\<close> that the particles before and after it produce. For A = 12, Z = 6 on
  the proton channel the daughter is A = 11, Z = 5 with energy E - E/12 (the witness).
\<close>

theorem performInteraction_nucleus:
  assumes A: "massNumber env (particleId (current c)) = A" "1 < A"
    and Z: "chargeNumber env (particleId (current c)) = Z"
    and ch: "channel = 1 \<or> channel = 0"
    and sign: "sign = (if particleId (current c) > 0 then 1 else - 1)"
    and E: "E = energy (current c)"
    and gen: "sophiaevent env gen (1 - channel) (E / real_of_int A / GeV env) (redshift c)
                (if photonField m = CMB then 1 else 2) 100 = (pre @ (pType, p) # post, gen')"
    and nuc: "pType = 13 \<or> pType = 14"
    and other: "\<forall>q \<in> set (pre @ post). isOtherProduct (fst q)"
  shows "\<exists>s1 s2. length s1 \<le> length pre \<and> length s2 \<le> length post \<and>
     (\<forall>d. translateParticles env m A Z E (E / real_of_int A) sign channel pre d =
            Inr (d\<lparr>secondaries := secondaries d @ s1\<rparr>)) \<and>
     (\<forall>d. translateParticles env m A Z E (E / real_of_int A) sign channel post d =
            Inr (d\<lparr>secondaries := secondaries d @ s2\<rparr>)) \<and>
     performInteraction env m c channel gen =
       Inr (c\<lparr>current := \<lparr>particleId = sign * nucleusId env (A - 1)
                                           (if channel = 1 then Z - 1 else Z),
                           energy = E - E / real_of_int A\<rparr>,
              secondaries := secondaries c @ s1
                @ [(sign * nucleusId env 1 (14 - pType), p * GeV env)] @ s2\<rparr>, gen')"
proof -
  let ?tr = "translateParticles env m A Z E (E / real_of_int A) sign channel"
  from other obtain s1 where s1: "length s1 \<le> length pre"
    "\<And>d. ?tr pre d = Inr (d\<lparr>secondaries := secondaries d @ s1\<rparr>)"
    using translateParticles_other[of pre env m A Z E "E / real_of_int A" sign channel] by auto
  from other obtain s2 where s2: "length s2 \<le> length post"
    "\<And>d. ?tr post d = Inr (d\<lparr>secondaries := secondaries d @ s2\<rparr>)"
    using translateParticles_other[of post env m A Z E "E / real_of_int A" sign channel] by auto
  have zc: "Z - channel = (if channel = 1 then Z - 1 else Z)"
    using ch by auto
  have tr: "?tr (pre @ (pType, p) # post) c =
       Inr (c\<lparr>current := \<lparr>particleId = sign * nucleusId env (A - 1)
                                           (if channel = 1 then Z - 1 else Z),
                           energy = E - E / real_of_int A\<rparr>,
              secondaries := secondaries c @ s1
                @ [(sign * nucleusId env 1 (14 - pType), p * GeV env)] @ s2\<rparr>)"
    using A(2) nuc
    by (simp add: translateParticles_append s1(2) s2(2) translateParticle_nucleon_heavy zc)
  have "performInteraction env m c channel gen =
       Inr (c\<lparr>current := \<lparr>particleId = sign * nucleusId env (A - 1)
                                           (if channel = 1 then Z - 1 else Z),
                           energy = E - E / real_of_int A\<rparr>,
              secondaries := secondaries c @ s1
                @ [(sign * nucleusId env 1 (14 - pType), p * GeV env)] @ s2\<rparr>, gen')"
    unfolding performInteraction_def Let_def A(1) Z fdiv_def
    using A(2) gen tr by (simp add: E sign)
  with s1 s2 show ?thesis by blast
qed

text \<open>
  C6. A bare nucleon (A = 1) interacts and the generator returns a nucleon code among
  otherwise accepted codes. Then identity and energy of the candidate are replaced in
  place by the outgoing nucleon with the sign of the incoming particle and the energy
  Eout = p * GeV, and the nucleon adds no secondary: the secondaries appended are those
  of the other particles. In particular a bare proton for which the generator returns
  the single code 13 stays the same bare proton with the new energy.
\<close>

theorem performInteraction_nucleon:
  assumes A: "massNumber env (particleId (current c)) = 1"
    and Z: "chargeNumber env (particleId (current c)) = Z"
    and sign: "sign = (if particleId (current c) > 0 then 1 else - 1)"
    and E: "E = energy (current c)"
    and gen: "sophiaevent env gen (1 - channel) (E / GeV env) (redshift c)
                (if photonField m = CMB then 1 else 2) 100 = (pre @ (pType, p) # post, gen')"
    and nuc: "pType = 13 \<or> pType = 14"
    and other: "\<forall>q \<in> set (pre @ post). isOtherProduct (fst q)"
  shows "(\<exists>s1 s2. length s1 \<le> length pre \<and> length s2 \<le> length post \<and>
     (\<forall>d. translateParticles env m 1 Z E E sign channel pre d =
            Inr (d\<lparr>secondaries := secondaries d @ s1\<rparr>)) \<and>
     (\<forall>d. translateParticles env m 1 Z E E sign channel post d =
            Inr (d\<lparr>secondaries := secondaries d @ s2\<rparr>)) \<and>
     performInteraction env m c channel gen =
       Inr (c\<lparr>current := \<lparr>particleId = sign * nucleusId env 1 (14 - pType),
                           energy = p * GeV env\<rparr>,
              secondaries := secondaries c @ s1 @ s2\<rparr>, gen')) \<and>
     (pre = [] \<and> post = [] \<and> pType = 13 \<and> 0 < particleId (current c) \<and>
      particleId (current c) = nucleusId env 1 1 \<longrightarrow>
        performInteraction env m c channel gen = Inr (setEnergy c (p * GeV env), gen'))"
proof -
  let ?tr = "translateParticles env m 1 Z E E sign channel"
  from other obtain s1 where s1: "length s1 \<le> length pre"
    "\<And>d. ?tr pre d = Inr (d\<lparr>secondaries := secondaries d @ s1\<rparr>)"
    using translateParticles_other[of pre env m 1 Z E E sign channel] by auto
  from other obtain s2 where s2: "length s2 \<le> length post"
    "\<And>d. ?tr post d = Inr (d\<lparr>secondaries := secondaries d @ s2\<rparr>)"
    using translateParticles_other[of post env m 1 Z E E sign channel] by auto
  have tr: "?tr (pre @ (pType, p) # post) c =
       Inr (c\<lparr>current := \<lparr>particleId = sign * nucleusId env 1 (14 - pType),
                           energy = p * GeV env\<rparr>,
              secondaries := secondaries c @ s1 @ s2\<rparr>)"
    using nuc
    by (simp add: translateParticles_append s1(2) s2(2) translateParticle_nucleon_bare)
  have pI: "performInteraction env m c channel gen =
       Inr (c\<lparr>current := \<lparr>particleId = sign * nucleusId env 1 (14 - pType),
                           energy = p * GeV env\<rparr>,
              secondaries := secondaries c @ s1 @ s2\<rparr>, gen')"
    unfolding performInteraction_def Let_def A Z fdiv_def
    using gen tr by (simp add: E sign)
  have "performInteraction env m c channel gen = Inr (setEnergy c (p * GeV env), gen')"
    if "pre = []" "post = []" "pType = 13" "0 < particleId (current c)"
      "particleId (current c) = nucleusId env 1 1"
  proof -
    have "s1 = []" "s2 = []" using s1(1) s2(1) that by simp_all
    then show ?thesis
      unfolding pI using that sign by (simp add: setEnergy_def)
  qed
  with pI s1 s2 show ?thesis by blast
qed



text \<open>Unfolding the sample instance.\<close>

lemmas sample_defs = sampleEnv_def sampleModule_def sampleCandidate_def pdgMassNumber_def
      pdgChargeNumber_def pdgNucleusId_def pdgIsNucleus_def

theorem performInteraction_nucleus_witness:
  "performInteraction (sampleEnv [(13, 1 / 2), (1, 1 / 5), (1, 3 / 10)]) sampleModule
        (sampleCandidate 1000060120 240 1) 1 0 =
       Inr ((sampleCandidate 1000060120 240 1)
              \<lparr>current := \<lparr>particleId = 1000050110, energy = 240 - 240 / 12\<rparr>,
               secondaries := [(1000010010, 1 / 2), (22, 1 / 5), (22, 3 / 10)]\<rparr>, 1)"
proof -
  let ?env = "sampleEnv [(13, 1 / 2), (1, 1 / 5), (1, 3 / 10)]"
  let ?c = "sampleCandidate 1000060120 240 1"
  have h1: "massNumber ?env (particleId (current ?c)) = 12" and h2: "(1::int) < 12"
    and h3: "chargeNumber ?env (particleId (current ?c)) = 6"
    and h4: "(1::int) = 1 \<or> (1::int) = 0"
    and h5: "(1::int) = (if particleId (current ?c) > 0 then 1 else - 1)"
    and h6: "(240::real) = energy (current ?c)"
    and h7: "sophiaevent ?env 0 (1 - 1) (240 / real_of_int 12 / GeV ?env) (redshift ?c)
                (if photonField sampleModule = CMB then 1 else 2) 100 =
             ([] @ (13, 1 / 2) # [(1, 1 / 5), (1, 3 / 10)], 1)"
    and h8: "(13::int) = 13 \<or> (13::int) = 14"
    and h9: "\<forall>q \<in> set ([] @ [(1::int, 1 / 5 :: real), (1, 3 / 10)]). isOtherProduct (fst q)"
    by (simp_all add: sample_defs isOtherProduct_def)
  from performInteraction_nucleus [OF h1 h2 h3 h4 h5 h6 h7 h8 h9]
  obtain s1 s2 where s1: "length s1 \<le> length ([] :: (int \<times> real) list)"
    and post: "\<forall>d. translateParticles ?env sampleModule 12 6 240 (240 / real_of_int 12) 1 1
                 [(1, 1 / 5), (1, 3 / 10)] d = Inr (d\<lparr>secondaries := secondaries d @ s2\<rparr>)"
    and res: "performInteraction ?env sampleModule ?c 1 0 =
       Inr (?c\<lparr>current := \<lparr>particleId = 1 * nucleusId ?env (12 - 1)
                                           (if (1::int) = 1 then 6 - 1 else 6),
                           energy = 240 - 240 / real_of_int 12\<rparr>,
              secondaries := secondaries ?c @ s1
                @ [(1 * nucleusId ?env 1 (14 - 13), 1 / 2 * GeV ?env)] @ s2\<rparr>, 1)"
    by blast
  from s1 have e1: "s1 = []" by simp
  from post [rule_format, of ?c] have e2: "s2 = [(22, 1 / 5), (22, 3 / 10)]"
    by (simp add: translateParticle_def addSecondary_def sample_defs)
  show ?thesis unfolding res e1 e2 by (simp add: sample_defs)
qed

theorem performInteraction_nucleon_witness:
  "performInteraction (sampleEnv [(13, 7)]) sampleModule (sampleCandidate 1000010010 20 1) 1 0 =
     Inr (setEnergy (sampleCandidate 1000010010 20 1) 7, 1)"
proof -
  let ?env = "sampleEnv [(13, 7)]"
  let ?c = "sampleCandidate 1000010010 20 1"
  have h1: "massNumber ?env (particleId (current ?c)) = 1"
    and h3: "chargeNumber ?env (particleId (current ?c)) = 1"
    and h5: "(1::int) = (if particleId (current ?c) > 0 then 1 else - 1)"
    and h6: "(20::real) = energy (current ?c)"
    and h7: "sophiaevent ?env 0 (1 - 1) (20 / GeV ?env) (redshift ?c)
                (if photonField sampleModule = CMB then 1 else 2) 100 =
             ([] @ (13, 7) # [], 1)"
    and h8: "(13::int) = 13 \<or> (13::int) = 14"
    and h9: "\<forall>q \<in> set ([] @ ([] :: (int \<times> real) list)). isOtherProduct (fst q)"
    and h10: "0 < particleId (current ?c)"
      "particleId (current ?c) = nucleusId ?env 1 1"
    by (simp_all add: sample_defs)
  from performInteraction_nucleon [OF h1 h3 h5 h6 h7 h8 h9] h10
  have "performInteraction ?env sampleModule ?c 1 0 = Inr (setEnergy ?c (7 * GeV ?env), 1)"
    by blast
  then show ?thesis by (simp add: sampleEnv_def)
qed

subsection \<open>Table loading\<close>

lemma initLoop_eof:
  assumes "buf (infile l) = []"
  shows "fst (initLoop env (m, l)) = m"
proof (cases "good (infile l)")
  case False
  then show ?thesis by (subst initLoop.simps) simp
next
  case True
  have b: "fst (initBody env (m, l)) = m" "\<not> good (infile (snd (initBody env (m, l))))"
    using True assms
    by (simp_all add: initBody_def peekNotHash_def readRow_def extractDouble_def ignoreLine_def
        good_def Let_def)
  obtain m' l' where ml: "initBody env (m, l) = (m', l')" by (cases "initBody env (m, l)")
  have "initLoop env (m, l) = initLoop env (m', l')"
    using True ml by (subst initLoop.simps) simp
  also have "\<dots> = (m', l')"
    using b ml by (subst initLoop.simps) simp
  finally show ?thesis using b ml by simp
qed

lemma initBody_comment:
  assumes "good (infile l)" "buf (infile l) = Hash # body @ Newline # rest" "Newline \<notin> set body"
  shows "initBody env (m, l) = (m, l\<lparr>infile := (infile l)\<lparr>buf := rest\<rparr>\<rparr>)"
proof -
  have "\<And>x. x \<in> set body \<Longrightarrow> x \<noteq> Newline"
    using assms(3) by blast
  then have "dropWhile (\<lambda>x. x \<noteq> Newline) (body @ Newline # rest) = Newline # rest"
    by simp
  then show ?thesis
    using assms(1,2)
    by (simp add: initBody_def peekNotHash_def ignoreLine_def good_def Let_def)
qed

lemma pushRow_infile_update:
  "pushRow env z a b c (m, l\<lparr>infile := s\<rparr>) =
     (fst (pushRow env z a b c (m, l)), (snd (pushRow env z a b c (m, l)))\<lparr>infile := s\<rparr>)"
  by (simp add: pushRow_def Let_def split: option.splits)

lemma initBody_data:
  assumes "good (infile l)"
    "buf (infile l) = renderLine (doRedshiftDependent m) (DataLine z a b c) @ rest"
  shows "initBody env (m, l) =
     (fst (pushRow env (if doRedshiftDependent m then Some z else None) a b c (m, l)),
      (snd (pushRow env (if doRedshiftDependent m then Some z else None) a b c (m, l)))
         \<lparr>infile := (infile l)\<lparr>buf := rest\<rparr>\<rparr>)"
proof (cases "doRedshiftDependent m")
  case True
  have r: "readRow True (infile l) =
      ((Some z, Some a, Some b, Some c), (infile l)\<lparr>buf := Newline # rest\<rparr>)"
    using assms True
    by (simp add: readRow_def extractDouble_def good_def isspace_def)
  show ?thesis
    using assms True
    by (simp add: initBody_def peekNotHash_def r Let_def pushRow_infile_update
        ignoreLine_def good_def pushRow_infile case_prod_beta)
next
  case False
  have r: "readRow False (infile l) =
      ((None, Some a, Some b, Some c), (infile l)\<lparr>buf := Newline # rest\<rparr>)"
    using assms False
    by (simp add: readRow_def extractDouble_def good_def isspace_def)
  show ?thesis
    using assms False
    by (simp add: initBody_def peekNotHash_def r Let_def pushRow_infile_update
        ignoreLine_def good_def pushRow_infile case_prod_beta)
qed


lemma pushRow_tables:
  "tabProtonRate (fst (pushRow env z a b c (m, l))) = tabProtonRate m @ [b / Mpc env]"
  "tabNeutronRate (fst (pushRow env z a b c (m, l))) = tabNeutronRate m @ [c / Mpc env]"
  "tabLorentz (fst (pushRow env z a b c (m, l))) =
     tabLorentz m @ (if doReadLorentz l \<and> \<not> a < aOld l then [10 powr a] else [])"
  "doRedshiftDependent (fst (pushRow env z a b c (m, l))) = doRedshiftDependent m"
  "doReadLorentz (snd (pushRow env z a b c (m, l))) = (doReadLorentz l \<and> \<not> a < aOld l)"
  "aOld (snd (pushRow env z a b c (m, l))) = a"
  by (simp_all add: pushRow_def Let_def split: option.splits)

lemma initLoop_render:
  assumes "\<forall>ln \<in> set lines. wellFormedLine ln"
    and "good (infile l)"
    and "buf (infile l) = renderFile (doRedshiftDependent m) lines"
  shows "tabProtonRate (fst (initLoop env (m, l))) =
           tabProtonRate m @ map (\<lambda>(z, a, b, c). b / Mpc env) (dataRows lines) \<and>
         tabNeutronRate (fst (initLoop env (m, l))) =
           tabNeutronRate m @ map (\<lambda>(z, a, b, c). c / Mpc env) (dataRows lines) \<and>
         tabLorentz (fst (initLoop env (m, l))) =
           tabLorentz m @
             (if doReadLorentz l
              then map (\<lambda>a. 10 powr a)
                     (ascendingRun (aOld l) (map (\<lambda>(z, a, b, c). a) (dataRows lines)))
              else [])"
  using assms
proof (induction lines arbitrary: m l)
  case Nil
  then have "buf (infile l) = []" by (simp add: renderFile_def)
  then show ?case by (simp add: initLoop_eof)
next
  case (Cons ln lines)
  have wf: "\<forall>ln \<in> set lines. wellFormedLine ln" using Cons.prems(1) by simp
  show ?case
  proof (cases ln)
    case (CommentLine body)
    have nl: "Newline \<notin> set body" using Cons.prems(1) CommentLine by simp
    have b: "buf (infile l) = Hash # body @ Newline # renderFile (doRedshiftDependent m) lines"
      using Cons.prems(3) CommentLine by (simp add: renderFile_def)
    let ?l = "l\<lparr>infile := (infile l)\<lparr>buf := renderFile (doRedshiftDependent m) lines\<rparr>\<rparr>"
    have step: "initLoop env (m, l) = initLoop env (m, ?l)"
      using Cons.prems(2) initBody_comment[OF Cons.prems(2) b nl, of env m]
      by (subst initLoop.simps) simp
    have g: "good (infile ?l)" using Cons.prems(2) by (simp add: good_def)
    have "buf (infile ?l) = renderFile (doRedshiftDependent m) lines" by simp
    from Cons.IH[OF wf g this] show ?thesis
      unfolding step CommentLine by simp
  next
    case (DataLine z a b c)
    let ?zo = "if doRedshiftDependent m then Some z else None"
    let ?m = "fst (pushRow env ?zo a b c (m, l))"
    let ?l0 = "snd (pushRow env ?zo a b c (m, l))"
    let ?l = "?l0\<lparr>infile := (infile l)\<lparr>buf := renderFile (doRedshiftDependent m) lines\<rparr>\<rparr>"
    have b: "buf (infile l) = renderLine (doRedshiftDependent m) (DataLine z a b c)
               @ renderFile (doRedshiftDependent m) lines"
      using Cons.prems(3) DataLine by (simp add: renderFile_def)
    have step: "initLoop env (m, l) = initLoop env (?m, ?l)"
      using Cons.prems(2) initBody_data[OF Cons.prems(2) b, of env]
      by (subst initLoop.simps) simp
    have g: "good (infile ?l)" using Cons.prems(2) by (simp add: good_def)
    have "buf (infile ?l) = renderFile (doRedshiftDependent ?m) lines"
      by (simp add: pushRow_tables)
    from Cons.IH[OF wf g this] show ?thesis
      unfolding step DataLine by (simp add: pushRow_tables)
  qed
qed

lemma ascendingRun_descent:
  assumes "k < length as" "as ! k < (if k = 0 then prev else as ! (k - 1))"
  shows "length (ascendingRun prev as) \<le> k"
  using assms
proof (induction as arbitrary: prev k)
  case Nil
  then show ?case by simp
next
  case (Cons a as)
  show ?case
  proof (cases k)
    case 0
    then show ?thesis using Cons.prems by simp
  next
    case (Suc j)
    have "length (ascendingRun a as) \<le> j"
    proof (rule Cons.IH)
      show "j < length as" using Cons.prems(1) Suc by simp
      show "as ! j < (if j = 0 then a else as ! (j - 1))"
        using Cons.prems(2) Suc by (cases j) simp_all
    qed
    then show ?thesis using Suc by simp
  qed
qed

lemma ascendingRun_prefix:
  "ascendingRun prev as = take (length (ascendingRun prev as)) as"
  by (induction as arbitrary: prev) simp_all

lemma ascendingRun_first:
  assumes "as \<noteq> []" "prev \<le> hd as"
  shows "ascendingRun prev as = ascendingRun (hd as) as"
  using assms by (cases as) auto


text \<open>
  C8. For a table file made of comment lines and data lines, the proton-rate and the
  neutron-rate arrays receive exactly one entry per data row, in order, and the Lorentz
  grid receives the entries of the first ascending run of the log10(gamma) column only:
  it is a prefix of that column, and once a row's value is smaller than the value of the
  row before it (position \<open>k\<close>), the grid has at most \<open>k\<close> entries, so neither that
  row nor any later one is appended. The run is taken against the initial value -1 of
  \<^verbatim>\<open>aOld\<close>; a Lorentz factor is at least 1, so the first log10(gamma) is not below -1
  and the grid is the first ascending run of the column itself.
\<close>

theorem init_first_ascending_run:
  assumes fl: "fs filename = Some (renderFile (doRedshiftDependent m) lines)"
    and wf: "\<forall>ln \<in> set lines. wellFormedLine ln"
    and rows: "rows = dataRows lines"
    and as: "as = map (\<lambda>(z, a, b, c). a) rows"
    and m': "m' = snd (init env fs filename m)"
  shows "tabProtonRate m' = map (\<lambda>(z, a, b, c). b / Mpc env) rows \<and>
         tabNeutronRate m' = map (\<lambda>(z, a, b, c). c / Mpc env) rows \<and>
         length (tabProtonRate m') = length rows \<and>
         length (tabNeutronRate m') = length rows \<and>
         tabLorentz m' = map (\<lambda>a. 10 powr a) (ascendingRun (- 1) as) \<and>
         (as \<noteq> [] \<and> - 1 \<le> hd as \<longrightarrow>
            tabLorentz m' = map (\<lambda>a. 10 powr a) (ascendingRun (hd as) as)) \<and>
         tabLorentz m' = map (\<lambda>a. 10 powr a) (take (length (tabLorentz m')) as) \<and>
         (\<forall>k. 0 < k \<and> k < length as \<and> as ! k < as ! (k - 1) \<longrightarrow> length (tabLorentz m') \<le> k)"
proof -
  let ?m0 = "m\<lparr>tabLorentz := [], tabRedshifts := [], tabProtonRate := [], tabNeutronRate := []\<rparr>"
  let ?l0 = "\<lparr>infile = \<lparr>buf = renderFile (doRedshiftDependent m) lines, eofbit = False,
                         failbit = False\<rparr>,
             zOld = Some (- 1), aOld = - 1, doReadLorentz = True\<rparr>"
  have m'_eq: "m' = fst (initLoop env (?m0, ?l0))"
    unfolding m' init_def using fl by simp
  have g: "good (infile ?l0)" by (simp add: good_def)
  have b: "buf (infile ?l0) = renderFile (doRedshiftDependent ?m0) lines" by simp
  note r = initLoop_render[OF wf g b, of env, folded m'_eq rows]
  have p: "tabProtonRate m' = map (\<lambda>(z, a, b, c). b / Mpc env) rows"
    and n: "tabNeutronRate m' = map (\<lambda>(z, a, b, c). c / Mpc env) rows"
    and lo: "tabLorentz m' = map (\<lambda>a. 10 powr a) (ascendingRun (- 1) as)"
    using r by (simp_all add: as)
  have len: "length (tabLorentz m') = length (ascendingRun (- 1) as)"
    using lo by simp
  have pre: "tabLorentz m' = map (\<lambda>a. 10 powr a) (take (length (tabLorentz m')) as)"
    unfolding len using lo ascendingRun_prefix[of "- 1" as] by simp
  have desc: "length (tabLorentz m') \<le> k" if "0 < k" "k < length as" "as ! k < as ! (k - 1)" for k
    unfolding len using that ascendingRun_descent[of k as "- 1"] by simp
  have lp: "length (tabProtonRate m') = length rows"
    and ln: "length (tabNeutronRate m') = length rows"
    by (simp_all add: p n)
  have run: "tabLorentz m' = map (\<lambda>a. 10 powr a) (ascendingRun (hd as) as)"
    if "as \<noteq> []" "- 1 \<le> hd as"
    using lo ascendingRun_first[OF that] by simp
  show ?thesis using p n lp ln lo run pre desc by blast
qed

theorem init_first_ascending_run_witness:
  "tabProtonRate (snd (init (sampleEnv []) (\<lambda>name. Some (renderFile False
       [CommentLine [Space, Other], DataLine 0 1 2 3, DataLine 0 2 4 5, DataLine 0 1 6 7,
        DataLine 0 3 8 9])) ''ppp_CMB.txt'' sampleModule)) = [2, 4, 6, 8] \<and>
   tabNeutronRate (snd (init (sampleEnv []) (\<lambda>name. Some (renderFile False
       [CommentLine [Space, Other], DataLine 0 1 2 3, DataLine 0 2 4 5, DataLine 0 1 6 7,
        DataLine 0 3 8 9])) ''ppp_CMB.txt'' sampleModule)) = [3, 5, 7, 9] \<and>
   tabLorentz (snd (init (sampleEnv []) (\<lambda>name. Some (renderFile False
       [CommentLine [Space, Other], DataLine 0 1 2 3, DataLine 0 2 4 5, DataLine 0 1 6 7,
        DataLine 0 3 8 9])) ''ppp_CMB.txt'' sampleModule)) = [10 powr 1, 10 powr 2] \<and>
   length (tabLorentz (snd (init (sampleEnv []) (\<lambda>name. Some (renderFile False
       [CommentLine [Space, Other], DataLine 0 1 2 3, DataLine 0 2 4 5, DataLine 0 1 6 7,
        DataLine 0 3 8 9])) ''ppp_CMB.txt'' sampleModule))) \<le> 2"
proof -
  let ?lines = "[CommentLine [Space, Other], DataLine 0 1 2 3, DataLine 0 2 4 5, DataLine 0 1 6 7,
        DataLine 0 3 8 9]"
  let ?fs = "\<lambda>name :: string. Some (renderFile False ?lines)"
  have h1: "?fs ''ppp_CMB.txt'' = Some (renderFile (doRedshiftDependent sampleModule) ?lines)"
    by (simp add: sampleModule_def)
  have h2: "\<forall>ln \<in> set ?lines. wellFormedLine ln" by simp
  have h3: "[(0, 1, 2, 3), (0, 2, 4, 5), (0, 1, 6, 7), (0, 3, 8, 9)] = dataRows ?lines" by simp
  have h4: "[1, 2, 1, 3] = map (\<lambda>(z :: real, a :: real, b :: real, c :: real). a)
              [(0, 1, 2, 3), (0, 2, 4, 5), (0, 1, 6, 7), (0, 3, 8, 9)]" by simp
  from init_first_ascending_run [OF h1 h2 h3 h4 refl, of "sampleEnv []"]
  show ?thesis by (simp add: sampleEnv_def)
qed

text \<open>
  C9. If the file cannot be opened, \<^verbatim>\<open>init(filename)\<close> throws and the module is
  unchanged, in particular the four tables loaded before. If the file is opened, nothing
  is thrown and the result does not depend on the old tables: they are cleared (an empty
  file leaves four empty tables) and replaced.
\<close>

theorem init_unopened_file_keeps_tables:
  "(fs filename = None \<longrightarrow> init env fs filename m = (Some (CouldNotOpenFile filename), m)) \<and>
   (fs filename \<noteq> None \<longrightarrow>
      fst (init env fs filename m) = None \<and>
      init env fs filename
        (m\<lparr>tabLorentz := ta, tabRedshifts := tb, tabProtonRate := tc, tabNeutronRate := td\<rparr>) =
      init env fs filename m) \<and>
   (fs filename = Some [] \<longrightarrow>
      init env fs filename m =
        (None, m\<lparr>tabLorentz := [], tabRedshifts := [], tabProtonRate := [],
                  tabNeutronRate := []\<rparr>))"
proof -
  have "fst (initLoop env (m0, \<lparr>infile = \<lparr>buf = [], eofbit = False, failbit = False\<rparr>,
             zOld = Some (- 1), aOld = - 1, doReadLorentz = True\<rparr>)) = m0" for m0
    by (rule initLoop_eof) simp
  then show ?thesis
    by (auto simp: init_def split: option.splits)
qed

theorem init_unopened_file_keeps_tables_witness:
  "init (sampleEnv []) (\<lambda>name. if name = ''ppp_CMB.txt'' then Some [] else None)
      ''ppp_IRB.txt'' sampleModule = (Some (CouldNotOpenFile ''ppp_IRB.txt''), sampleModule) \<and>
   init (sampleEnv []) (\<lambda>name. if name = ''ppp_CMB.txt'' then Some [] else None)
      ''ppp_CMB.txt'' sampleModule =
     (None, sampleModule\<lparr>tabLorentz := [], tabRedshifts := [], tabProtonRate := [],
                         tabNeutronRate := []\<rparr>) \<and>
   init (sampleEnv []) (\<lambda>name. if name = ''ppp_CMB.txt'' then Some [] else None)
      ''ppp_CMB.txt''
      (sampleModule\<lparr>tabLorentz := [1], tabRedshifts := [], tabProtonRate := [7],
                    tabNeutronRate := [8]\<rparr>) =
   init (sampleEnv []) (\<lambda>name. if name = ''ppp_CMB.txt'' then Some [] else None)
      ''ppp_CMB.txt'' sampleModule"
  using init_unopened_file_keeps_tables
      [of "\<lambda>name. if name = ''ppp_CMB.txt'' then Some [] else None" "''ppp_IRB.txt''"
          "sampleEnv []" sampleModule]
    init_unopened_file_keeps_tables
      [where fs = "\<lambda>name. if name = ''ppp_CMB.txt'' then Some [] else None"
         and filename = "''ppp_CMB.txt''" and env = "sampleEnv []" and m = sampleModule
         and ta = "[1]" and tb = "[]" and tc = "[7]" and td = "[8]"]
  by simp

subsection \<open>The stochastic step and the loss length\<close>

lemma processBody_in_range:
  assumes "isNucleus env (particleId (current c))" "tabLorentz m \<noteq> []"
    and "\<not> ((1 + redshift c) * getLorentzFactor env (current c) < hd (tabLorentz m) \<or>
            (1 + redshift c) * getLorentzFactor env (current c) > last (tabLorentz m))"
    and "sampleChannels env m (redshift c) ((1 + redshift c) * getLorentzFactor env (current c))
           (particleId (current c)) random = (randDistance, channel, totalRate, random')"
  shows "processBody env m step (c, random, gen) =
     (if dless step randDistance then
        Inr (Return (limitNextStep c (ddiv (Fin (limit m)) (Fin totalRate)), random', gen))
      else
        (case channel of
           None \<Rightarrow> Inl UninitializedChannel
         | Some ch \<Rightarrow>
             (case performInteraction env m c ch gen of
                Inl e \<Rightarrow> Inl e
              | Inr (candidate', gen') \<Rightarrow>
                  Inr (Repeat (dsub step randDistance) (candidate', random', gen')))))"
  using assms unfolding processBody_def Let_def by simp

lemma processBody_out_of_range:
  assumes "tabLorentz m \<noteq> []"
    and "(1 + redshift c) * getLorentzFactor env (current c) < hd (tabLorentz m) \<or>
         (1 + redshift c) * getLorentzFactor env (current c) > last (tabLorentz m)"
  shows "processBody env m step (c, random, gen) = Inr (Return (c, random, gen))"
  using assms unfolding processBody_def Let_def by auto

lemma processLoop_Return:
  assumes "processBody env m step s = Inr (Return s')"
  shows "processLoop env m step s = Some (Inr s')"
  using assms by (subst processLoop.simps) simp

text \<open>The result of the sampling block, written out.\<close>

lemma sampleChannels_eq:
  assumes "A = massNumber env pid" "Z = chargeNumber env pid"
    and "scaling = (1 + z) ^ 2 * photonFieldScaling env (photonField m) z"
    and "rateP = channelRate env m z gamma scaling (tabProtonRate m) A Z"
    and "rateN = channelRate env m z gamma scaling (tabNeutronRate m) A (A - Z)"
    and "dP = channelDistance (shd random) rateP"
    and "dN = channelDistance (shd (if 0 < Z then stl random else random)) rateN"
  shows "sampleChannels env m z gamma pid random =
     (if 0 < Z then (if 0 < A - Z \<and> dless dN dP then dN else dP)
      else if 0 < A - Z \<and> dless dN DBL_MAX then dN else DBL_MAX,
      if 0 < Z then (if 0 < A - Z \<and> dless dN dP then Some 0 else Some 1)
      else if 0 < A - Z \<and> dless dN DBL_MAX then Some 0 else None,
      (if 0 < Z then rateP else 0) + (if 0 < A - Z then rateN else 0),
      if 0 < Z then (if 0 < A - Z then stl (stl random) else stl random)
      else if 0 < A - Z then stl random else random)"
  unfolding sampleChannels_def Let_def assms by simp


lemma sampleChannels_totalRate:
  assumes "sampleChannels env m z gamma pid random = (d, ch, T, r')"
  shows "T = (if 0 < chargeNumber env pid
              then channelRate env m z gamma ((1 + z) ^ 2 * photonFieldScaling env (photonField m) z)
                     (tabProtonRate m) (massNumber env pid) (chargeNumber env pid)
              else 0)
           + (if 0 < massNumber env pid - chargeNumber env pid
              then channelRate env m z gamma ((1 + z) ^ 2 * photonFieldScaling env (photonField m) z)
                     (tabNeutronRate m) (massNumber env pid)
                     (massNumber env pid - chargeNumber env pid)
              else 0)"
  using assms sampleChannels_eq [OF refl refl refl refl refl refl refl, of env m z gamma pid random]
  by simp

text \<open>
  C2. For a nucleus candidate in the tabulated range, let \<open>randDistance\<close> be the winning
  (minimum) sampled channel distance and \<open>totalRate\<close> the total rate that the sampling
  block computes (the block always yields a result; the hypothesis only names it). If the
  remaining step is strictly smaller than \<open>randDistance\<close>, no interaction is performed
  (particle, secondaries and generator state are untouched), the next step is limited to
  the quotient limit / totalRate, and the loop returns at once, at any iteration and in
  particular at the first one of \<^verbatim>\<open>process\<close>. \<open>totalRate\<close> is the sum of the rates of
  the available channels, zero rates included; for a nonzero total rate the quotient is
  the finite number limit / totalRate.
\<close>

theorem process_defers:
  assumes nuc: "isNucleus env (particleId (current c))"
    and tab: "tabLorentz m \<noteq> []"
    and gamma: "gamma = (1 + redshift c) * getLorentzFactor env (current c)"
    and range: "hd (tabLorentz m) \<le> gamma" "gamma \<le> last (tabLorentz m)"
    and samp: "sampleChannels env m (redshift c) gamma (particleId (current c)) random =
                 (randDistance, channel, totalRate, random')"
    and less: "dless step randDistance"
  shows "processLoop env m step (c, random, gen) =
           Some (Inr (limitNextStep c (ddiv (Fin (limit m)) (Fin totalRate)), random', gen)) \<and>
         (step = Fin (currentStep c) \<longrightarrow>
            process env m c random gen =
              Some (Inr (limitNextStep c (ddiv (Fin (limit m)) (Fin totalRate)), random', gen))) \<and>
         (totalRate \<noteq> 0 \<longrightarrow> ddiv (Fin (limit m)) (Fin totalRate) = Fin (limit m / totalRate)) \<and>
         totalRate =
           (if 0 < chargeNumber env (particleId (current c))
            then channelRate env m (redshift c) gamma
                   ((1 + redshift c) ^ 2 * photonFieldScaling env (photonField m) (redshift c))
                   (tabProtonRate m) (massNumber env (particleId (current c)))
                   (chargeNumber env (particleId (current c)))
            else 0)
           + (if 0 < massNumber env (particleId (current c))
                      - chargeNumber env (particleId (current c))
              then channelRate env m (redshift c) gamma
                     ((1 + redshift c) ^ 2 * photonFieldScaling env (photonField m) (redshift c))
                     (tabNeutronRate m) (massNumber env (particleId (current c)))
                     (massNumber env (particleId (current c))
                        - chargeNumber env (particleId (current c)))
              else 0)"
proof -
  have inr: "\<not> ((1 + redshift c) * getLorentzFactor env (current c) < hd (tabLorentz m) \<or>
            (1 + redshift c) * getLorentzFactor env (current c) > last (tabLorentz m))"
    using range gamma by simp
  have body: "processBody env m step (c, random, gen) =
      Inr (Return (limitNextStep c (ddiv (Fin (limit m)) (Fin totalRate)), random', gen))"
    unfolding processBody_in_range [OF nuc tab inr samp [unfolded gamma]]
    using less by simp
  have loop: "processLoop env m step (c, random, gen) =
           Some (Inr (limitNextStep c (ddiv (Fin (limit m)) (Fin totalRate)), random', gen))"
    by (rule processLoop_Return [OF body])
  have proc: "step = Fin (currentStep c) \<longrightarrow>
            process env m c random gen =
              Some (Inr (limitNextStep c (ddiv (Fin (limit m)) (Fin totalRate)), random', gen))"
    using loop by (auto simp: process_def)
  have quot: "totalRate \<noteq> 0 \<longrightarrow>
      ddiv (Fin (limit m)) (Fin totalRate) = Fin (limit m / totalRate)"
    by simp
  show ?thesis
    by (intro conjI) (rule loop, rule proc, rule quot, rule sampleChannels_totalRate [OF samp])
qed

theorem process_defers_witness:
  "process (sampleEnv []) (sampleModule\<lparr>tabProtonRate := [0, 0]\<rparr>)
      (sampleCandidate 1000060120 240 (1 / 20)) (sconst (exp (- 1))) 0 =
     Some (Inr (limitNextStep (sampleCandidate 1000060120 240 (1 / 20))
                  (Fin (limit sampleModule / (102 / 10))),
                sconst (exp (- 1)), 0))"
proof -
  let ?env = "sampleEnv [] :: nat ext"
  let ?m = "sampleModule\<lparr>tabProtonRate := [0, 0]\<rparr>"
  let ?c = "sampleCandidate 1000060120 240 (1 / 20)"
  have h1: "isNucleus ?env (particleId (current ?c))"
    and h2: "tabLorentz ?m \<noteq> []"
    and h3: "(20::real) = (1 + redshift ?c) * getLorentzFactor ?env (current ?c)"
    and h4: "hd (tabLorentz ?m) \<le> 20" "20 \<le> last (tabLorentz ?m)"
    and h6: "dless (Fin (1 / 20)) (Fin (10 / 102))"
    by (simp_all add: sample_defs)
  have h5: "sampleChannels ?env ?m (redshift ?c) 20 (particleId (current ?c))
              (sconst (exp (- 1))) =
            (Fin (10 / 102), Some 0, 102 / 10, sconst (exp (- 1)))"
    by (simp add: sampleChannels_def channelRate_def channelDistance_def dlog_def DBL_MAX_def
        nucleiModification_def sample_defs Let_def)
  from process_defers [OF h1 h2 h3 h4 h5 h6, of 0]
  show ?thesis by (simp add: sample_defs)
qed

text \<open>
  C3. If the boosted Lorentz factor (1 + z) * gamma is strictly below the first or
  strictly above the last grid point, \<^verbatim>\<open>process\<close> returns the candidate, the random
  stream and the generator unchanged (no interaction, no step limit, no error), and
  \<^verbatim>\<open>lossLength\<close> returns the largest double for every id, gamma and z whose boosted
  factor is outside the grid.
\<close>

theorem out_of_range_no_interaction:
  assumes tab: "tabLorentz m \<noteq> []"
  shows "((1 + redshift c) * getLorentzFactor env (current c) < hd (tabLorentz m) \<or>
          (1 + redshift c) * getLorentzFactor env (current c) > last (tabLorentz m) \<longrightarrow>
            process env m c random gen = Some (Inr (c, random, gen))) \<and>
         (gamma * (1 + z) < hd (tabLorentz m) \<or> gamma * (1 + z) > last (tabLorentz m) \<longrightarrow>
            lossLength env m pid gamma z = Inr DBL_MAX)"
proof -
  have "process env m c random gen = Some (Inr (c, random, gen))"
    if "(1 + redshift c) * getLorentzFactor env (current c) < hd (tabLorentz m) \<or>
          (1 + redshift c) * getLorentzFactor env (current c) > last (tabLorentz m)"
    unfolding process_def
    by (rule processLoop_Return) (rule processBody_out_of_range[OF tab that])
  moreover have "lossLength env m pid gamma z = Inr DBL_MAX"
    if "gamma * (1 + z) < hd (tabLorentz m) \<or> gamma * (1 + z) > last (tabLorentz m)"
    using tab that unfolding lossLength_def Let_def by auto
  ultimately show ?thesis by blast
qed

theorem out_of_range_no_interaction_witness:
  "process (sampleEnv []) sampleModule (sampleCandidate 1000010010 5 1) (sconst (exp (- 1))) 0 =
     Some (Inr (sampleCandidate 1000010010 5 1, sconst (exp (- 1)), 0)) \<and>
   lossLength (sampleEnv []) sampleModule 1000010010 50 0 = Inr DBL_MAX"
proof -
  have h: "tabLorentz sampleModule \<noteq> []" by (simp add: sampleModule_def)
  from out_of_range_no_interaction
         [OF h, where c = "sampleCandidate 1000010010 5 1" and env = "sampleEnv []"
            and gamma = 50 and z = 0 and random = "sconst (exp (- 1))" and gen = 0
            and pid = 1000010010]
  show ?thesis by (simp add: sample_defs)
qed

lemma lossLength_in_range:
  assumes "tabLorentz m \<noteq> []"
    and "hd (tabLorentz m) \<le> gamma * (1 + z)" "gamma * (1 + z) \<le> last (tabLorentz m)"
    and "A = massNumber env pid" "Z = chargeNumber env pid"
  shows "lossLength env m pid gamma z =
     Inr (ddiv (Fin 1)
            (dmul
               (dmul
                  (Fin ((if 0 < Z
                         then interpolate env (gamma * (1 + z)) (tabLorentz m) (tabProtonRate m)
                              * nucleiModification A Z
                         else 0)
                        + (if 0 < A - Z
                           then interpolate env (gamma * (1 + z)) (tabLorentz m)
                                  (tabProtonRate m)
                                * nucleiModification A (A - Z)
                           else 0)))
                  (if A = 1 then Fin (1 - 938 / 1232) else ddiv (Fin 1) (Fin (real_of_int A))))
               (Fin ((1 + z) ^ 3 * photonFieldScaling env (photonField m) z))))"
  using assms unfolding lossLength_def Let_def by auto

lemma lossLength_finite:
  assumes "A \<noteq> 0" "R = S * (if A = 1 then 1 - 938 / 1232 else 1 / real_of_int A) * C" "R \<noteq> 0"
  shows "ddiv (Fin 1)
            (dmul (dmul (Fin S)
                     (if A = 1 then Fin (1 - 938 / 1232) else ddiv (Fin 1) (Fin (real_of_int A))))
               (Fin C)) = Fin (1 / R)"
  using assms by auto

text \<open>
  C5. For a redshift-independent table the lookup is made at the boosted Lorentz factor
  (1 + z) * gamma, and in the stochastic step each interpolated rate is multiplied by
  (1 + z)^2 * photonFieldScaling(field, z). These scaled rates \<open>rP\<close> and \<open>rN\<close> are the
  divisors of the sampled distances, and their sum is the total rate: the sampling block
  returns the minimum distance \<open>D\<close>, the winning channel and the total rate \<open>T\<close> built
  from them; a step below \<open>D\<close> is deferred with the limit limit / T, any other step
  interacts and goes on with the step reduced by \<open>D\<close>. In the loss length the
  interpolated rate is multiplied by (1 + z)^3 * photonFieldScaling(field, z): the
  returned value is 1 over the product written out below, a finite number whenever the
  mass number and the product are not zero.
\<close>

theorem redshift_scaling:
  assumes indep: "\<not> doRedshiftDependent m"
    and tab: "tabLorentz m \<noteq> []"
    and pid: "pid = particleId (current c)"
    and z: "z = redshift c"
    and gamma: "gamma = getLorentzFactor env (current c)"
    and A: "A = massNumber env pid"
    and Z: "Z = chargeNumber env pid"
    and range: "hd (tabLorentz m) \<le> gamma * (1 + z)" "gamma * (1 + z) \<le> last (tabLorentz m)"
    and s2: "s2 = (1 + z) ^ 2 * photonFieldScaling env (photonField m) z"
    and s3: "s3 = (1 + z) ^ 3 * photonFieldScaling env (photonField m) z"
    and iP: "iP = interpolate env ((1 + z) * gamma) (tabLorentz m) (tabProtonRate m)"
    and iN: "iN = interpolate env ((1 + z) * gamma) (tabLorentz m) (tabNeutronRate m)"
    and rP: "rP = s2 * iP * nucleiModification A Z"
    and rN: "rN = s2 * iN * nucleiModification A (A - Z)"
    and dP: "dP = channelDistance (shd random) rP"
    and dN: "dN = channelDistance (shd (if 0 < Z then stl random else random)) rN"
    and D: "D = (if 0 < Z then (if 0 < A - Z \<and> dless dN dP then dN else dP)
                 else if 0 < A - Z \<and> dless dN DBL_MAX then dN else DBL_MAX)"
    and ch: "ch = (if 0 < Z then (if 0 < A - Z \<and> dless dN dP then Some 0 else Some 1)
                   else if 0 < A - Z \<and> dless dN DBL_MAX then Some 0 else None)"
    and T: "T = (if 0 < Z then rP else 0) + (if 0 < A - Z then rN else 0)"
    and r': "random' = (if 0 < Z then (if 0 < A - Z then stl (stl random) else stl random)
                        else if 0 < A - Z then stl random else random)"
    and L: "L = ((if 0 < Z then iP * nucleiModification A Z else 0)
                 + (if 0 < A - Z then iP * nucleiModification A (A - Z) else 0))
                * (if A = 1 then 1 - 938 / 1232 else 1 / real_of_int A) * s3"
  shows "sampleChannels env m z ((1 + z) * gamma) pid random = (D, ch, T, random') \<and>
         (isNucleus env pid \<and> dless step D \<longrightarrow>
            processBody env m step (c, random, gen) =
              Inr (Return (limitNextStep c (ddiv (Fin (limit m)) (Fin T)), random', gen))) \<and>
         (isNucleus env pid \<and> \<not> dless step D \<and> ch = Some k \<and>
          performInteraction env m c k gen = Inr (c', gen') \<longrightarrow>
            processBody env m step (c, random, gen) =
              Inr (Repeat (dsub step D) (c', random', gen'))) \<and>
         lossLength env m pid gamma z =
           Inr (ddiv (Fin 1)
                  (dmul
                     (dmul
                        (Fin ((if 0 < Z then iP * nucleiModification A Z else 0)
                              + (if 0 < A - Z then iP * nucleiModification A (A - Z) else 0)))
                        (if A = 1 then Fin (1 - 938 / 1232)
                         else ddiv (Fin 1) (Fin (real_of_int A))))
                     (Fin s3))) \<and>
         (A \<noteq> 0 \<and> L \<noteq> 0 \<longrightarrow> lossLength env m pid gamma z = Inr (Fin (1 / L)))"
proof -
  have cP: "rP = channelRate env m z ((1 + z) * gamma) s2 (tabProtonRate m) A Z"
    and cN: "rN = channelRate env m z ((1 + z) * gamma) s2 (tabNeutronRate m) A (A - Z)"
    using indep by (simp_all add: channelRate_def rP rN iP iN)
  have samp: "sampleChannels env m z ((1 + z) * gamma) pid random = (D, ch, T, random')"
    unfolding D ch T r'
    by (rule sampleChannels_eq [OF A Z s2 cP cN dP dN])
  have inr: "\<not> ((1 + redshift c) * getLorentzFactor env (current c) < hd (tabLorentz m) \<or>
            (1 + redshift c) * getLorentzFactor env (current c) > last (tabLorentz m))"
    using range by (simp add: z gamma mult.commute)
  have samp': "sampleChannels env m (redshift c)
        ((1 + redshift c) * getLorentzFactor env (current c)) (particleId (current c)) random =
      (D, ch, T, random')"
    using samp by (simp add: z gamma pid)
  have dfr: "processBody env m step (c, random, gen) =
              Inr (Return (limitNextStep c (ddiv (Fin (limit m)) (Fin T)), random', gen))"
    if "isNucleus env pid" "dless step D"
  proof -
    have nuc: "isNucleus env (particleId (current c))" using that(1) pid by simp
    show ?thesis
      unfolding processBody_in_range [OF nuc tab inr samp'] using that(2) by simp
  qed
  have interact: "processBody env m step (c, random, gen) =
              Inr (Repeat (dsub step D) (c', random', gen'))"
    if "isNucleus env pid" "\<not> dless step D" "ch = Some k"
      "performInteraction env m c k gen = Inr (c', gen')"
  proof -
    have nuc: "isNucleus env (particleId (current c))" using that(1) pid by simp
    show ?thesis
      unfolding processBody_in_range [OF nuc tab inr samp'] using that(2,3,4) by simp
  qed
  have ll: "lossLength env m pid gamma z =
           Inr (ddiv (Fin 1)
                  (dmul
                     (dmul
                        (Fin ((if 0 < Z then iP * nucleiModification A Z else 0)
                              + (if 0 < A - Z then iP * nucleiModification A (A - Z) else 0)))
                        (if A = 1 then Fin (1 - 938 / 1232)
                         else ddiv (Fin 1) (Fin (real_of_int A))))
                     (Fin s3)))"
    unfolding lossLength_in_range [OF tab range A Z] iP s3 by (simp add: mult.commute)
  have fin: "lossLength env m pid gamma z = Inr (Fin (1 / L))" if "A \<noteq> 0" "L \<noteq> 0"
    unfolding ll using lossLength_finite [OF that(1) L that(2)] by simp
  show ?thesis using samp dfr interact ll fin by blast
qed


theorem redshift_scaling_witness:
  "processBody (sampleEnv [(13, 1 / 2)]) sampleModule (Fin (1 / 100))
     ((sampleCandidate 1000060120 120 1)\<lparr>redshift := 1\<rparr>, sconst (exp (- 1)), 0) =
     Inr (Return (limitNextStep ((sampleCandidate 1000060120 120 1)\<lparr>redshift := 1\<rparr>)
                    (Fin (limit sampleModule / ((1 + 1) ^ 2 * 3 * (51 / 10)
                                                + (1 + 1) ^ 2 * 2 * (51 / 10)))),
                  sconst (exp (- 1)), 0)) \<and>
   processBody (sampleEnv [(13, 1 / 2)]) sampleModule (Fin 1)
     ((sampleCandidate 1000060120 120 1)\<lparr>redshift := 1\<rparr>, sconst (exp (- 1)), 0) =
     Inr (Repeat (Fin (1 - 1 / ((1 + 1) ^ 2 * 3 * (51 / 10))))
            ((sampleCandidate 1000060120 120 1)
               \<lparr>current := \<lparr>particleId = 1000050110, energy = 110\<rparr>, redshift := 1,
                secondaries := [(1000010010, 1 / 2)]\<rparr>,
             sconst (exp (- 1)), 1)) \<and>
   lossLength (sampleEnv [(13, 1 / 2)]) sampleModule 1000060120 10 1 =
     Inr (Fin (1 / ((3 * (51 / 10) + 3 * (51 / 10)) * (1 / 12) * (1 + 1) ^ 3)))"
proof -
  let ?env = "sampleEnv [(13, 1 / 2)] :: nat ext"
  let ?c = "(sampleCandidate 1000060120 120 1)\<lparr>redshift := 1\<rparr>"
  let ?rnd = "sconst (exp (- 1 :: real))"
  let ?c' = "(sampleCandidate 1000060120 120 1)
               \<lparr>current := \<lparr>particleId = 1000050110, energy = 110\<rparr>, redshift := 1,
                secondaries := [(1000010010, 1 / 2)]\<rparr>"
  have h1: "\<not> doRedshiftDependent sampleModule" and h2: "tabLorentz sampleModule \<noteq> []"
    and h3: "1000060120 = particleId (current ?c)" and h4: "1 = redshift ?c"
    and h5: "10 = getLorentzFactor ?env (current ?c)"
    and h6: "12 = massNumber ?env 1000060120" and h7: "6 = chargeNumber ?env 1000060120"
    and h8: "hd (tabLorentz sampleModule) \<le> 10 * (1 + 1)"
      "10 * (1 + 1) \<le> last (tabLorentz sampleModule)"
    and h9: "4 = (1 + 1) ^ 2 * photonFieldScaling ?env (photonField sampleModule) 1"
    and h10: "8 = (1 + 1) ^ 3 * photonFieldScaling ?env (photonField sampleModule) 1"
    and h11: "3 = interpolate ?env ((1 + 1) * 10) (tabLorentz sampleModule)
                    (tabProtonRate sampleModule)"
    and h12: "2 = interpolate ?env ((1 + 1) * 10) (tabLorentz sampleModule)
                    (tabNeutronRate sampleModule)"
    and h13: "306 / 5 = 4 * 3 * nucleiModification 12 6"
    and h14: "204 / 5 = 4 * 2 * nucleiModification 12 (12 - 6)"
    and hn: "isNucleus ?env 1000060120"
    by (simp_all add: sample_defs nucleiModification_def)
  have h15: "Fin (5 / 306) = channelDistance (shd ?rnd) (306 / 5)"
    and h16: "Fin (5 / 204) = channelDistance (shd (if (0::int) < 6 then stl ?rnd else ?rnd)) (204 / 5)"
    by (simp_all add: channelDistance_def dlog_def)
  have h17: "Fin (5 / 306) =
      (if (0::int) < 6 then (if (0::int) < 12 - 6 \<and> dless (Fin (5 / 204)) (Fin (5 / 306))
                             then Fin (5 / 204) else Fin (5 / 306))
       else if (0::int) < 12 - 6 \<and> dless (Fin (5 / 204)) DBL_MAX then Fin (5 / 204) else DBL_MAX)"
    and h18: "Some 1 =
      (if (0::int) < 6 then (if (0::int) < 12 - 6 \<and> dless (Fin (5 / 204)) (Fin (5 / 306))
                             then Some 0 else Some (1::int))
       else if (0::int) < 12 - 6 \<and> dless (Fin (5 / 204)) DBL_MAX then Some 0 else None)"
    and h19: "(102::real) = (if (0::int) < 6 then 306 / 5 else 0)
                           + (if (0::int) < 12 - 6 then 204 / 5 else 0)"
    and h20: "?rnd = (if (0::int) < 6 then (if (0::int) < 12 - 6 then stl (stl ?rnd) else stl ?rnd)
                     else if (0::int) < 12 - 6 then stl ?rnd else ?rnd)"
    and h21: "(102 / 5 :: real) =
               ((if (0::int) < 6 then 3 * nucleiModification 12 6 else 0)
                 + (if (0::int) < 12 - 6 then 3 * nucleiModification 12 (12 - 6) else 0))
                * (if (12::int) = 1 then 1 - 938 / 1232 else 1 / real_of_int 12) * 8"
    by (simp_all add: nucleiModification_def)
  note inst = redshift_scaling [OF h1 h2 h3 h4 h5 h6 h7 h8 h9 h10 h11 h12 h13 h14 h15 h16 h17
      h18 h19 h20 h21, where gen = 0 and k = 1 and c' = ?c' and gen' = 1]
  have hp: "performInteraction ?env sampleModule ?c 1 0 = Inr (?c', 1)"
    by (simp add: performInteraction_def fdiv_def translateParticle_def setId_def setEnergy_def
        addSecondary_def sample_defs Let_def)
  from inst [of "Fin (1 / 100)"] hn
  have r1: "processBody ?env sampleModule (Fin (1 / 100)) (?c, ?rnd, 0) =
      Inr (Return (limitNextStep ?c (ddiv (Fin (limit sampleModule)) (Fin 102)), ?rnd, 0))"
    by simp
  from inst [of "Fin 1"] hn hp
  have r2: "processBody ?env sampleModule (Fin 1) (?c, ?rnd, 0) =
      Inr (Repeat (dsub (Fin 1) (Fin (5 / 306))) (?c', ?rnd, 1))"
    by simp
  from inst [of "Fin 1"]
  have r3: "lossLength ?env sampleModule 1000060120 10 1 = Inr (Fin (1 / (102 / 5)))"
    by (simp add: nucleiModification_def)
  show ?thesis unfolding r1 r2 r3 by (simp add: sampleModule_def)
qed

text \<open>
  C7. In \<^verbatim>\<open>lossLength\<close> the neutron contribution, added when N = A - Z > 0, is the
  interpolation of the proton rate table times nucleiModification(A, N): the value
  returned for every nucleus in the tabulated range is written out with that term, and
  it does not depend on the neutron rate table at all.
\<close>

theorem lossLength_neutron_uses_proton_table:
  assumes tab: "tabLorentz m \<noteq> []"
    and A: "A = massNumber env pid"
    and Z: "Z = chargeNumber env pid"
    and range: "hd (tabLorentz m) \<le> gamma * (1 + z)" "gamma * (1 + z) \<le> last (tabLorentz m)"
    and N: "0 < A - Z"
    and iP: "iP = interpolate env (gamma * (1 + z)) (tabLorentz m) (tabProtonRate m)"
    and s3: "s3 = (1 + z) ^ 3 * photonFieldScaling env (photonField m) z"
    and L: "L = ((if 0 < Z then iP * nucleiModification A Z else 0)
                 + iP * nucleiModification A (A - Z))
                * (if A = 1 then 1 - 938 / 1232 else 1 / real_of_int A) * s3"
  shows "lossLength env (m\<lparr>tabNeutronRate := t\<rparr>) pid gamma z = lossLength env m pid gamma z \<and>
         lossLength env m pid gamma z =
           Inr (ddiv (Fin 1)
                  (dmul
                     (dmul
                        (Fin ((if 0 < Z then iP * nucleiModification A Z else 0)
                              + iP * nucleiModification A (A - Z)))
                        (if A = 1 then Fin (1 - 938 / 1232)
                         else ddiv (Fin 1) (Fin (real_of_int A))))
                     (Fin s3))) \<and>
         (A \<noteq> 0 \<and> L \<noteq> 0 \<longrightarrow> lossLength env m pid gamma z = Inr (Fin (1 / L)))"
proof -
  have a: "lossLength env (m\<lparr>tabNeutronRate := t\<rparr>) pid gamma z = lossLength env m pid gamma z"
  proof -
    have sel: "tabLorentz (m\<lparr>tabNeutronRate := t\<rparr>) = tabLorentz m"
      "tabProtonRate (m\<lparr>tabNeutronRate := t\<rparr>) = tabProtonRate m"
      "photonField (m\<lparr>tabNeutronRate := t\<rparr>) = photonField m"
      by simp_all
    show ?thesis unfolding lossLength_def sel by (rule refl)
  qed
  have b: "lossLength env m pid gamma z =
           Inr (ddiv (Fin 1)
                  (dmul
                     (dmul
                        (Fin ((if 0 < Z then iP * nucleiModification A Z else 0)
                              + iP * nucleiModification A (A - Z)))
                        (if A = 1 then Fin (1 - 938 / 1232)
                         else ddiv (Fin 1) (Fin (real_of_int A))))
                     (Fin s3)))"
    unfolding iP s3 using lossLength_in_range [OF tab range A Z] N by (simp only: if_True)
  have c: "lossLength env m pid gamma z = Inr (Fin (1 / L))" if "A \<noteq> 0" "L \<noteq> 0"
    unfolding b using lossLength_finite [OF that(1) L that(2)] by simp
  show ?thesis using a b c by blast
qed

theorem lossLength_neutron_uses_proton_table_witness:
  "lossLength (sampleEnv []) (sampleModule\<lparr>tabNeutronRate := [0, 0]\<rparr>) 1000060120 20 0 =
     lossLength (sampleEnv []) sampleModule 1000060120 20 0 \<and>
   lossLength (sampleEnv []) sampleModule 1000060120 20 0 =
     Inr (Fin (1 / ((3 * (51 / 10) + 3 * (51 / 10)) * (1 / 12) * 1)))"
proof -
  let ?env = "sampleEnv [] :: nat ext"
  have h1: "tabLorentz sampleModule \<noteq> []"
    and h2: "12 = massNumber ?env 1000060120" and h3: "6 = chargeNumber ?env 1000060120"
    and h4: "hd (tabLorentz sampleModule) \<le> 20 * (1 + 0)"
      "20 * (1 + 0) \<le> last (tabLorentz sampleModule)"
    and h5: "(0::int) < 12 - 6"
    and h6: "3 = interpolate ?env (20 * (1 + 0)) (tabLorentz sampleModule)
                   (tabProtonRate sampleModule)"
    and h7: "1 = (1 + 0) ^ 3 * photonFieldScaling ?env (photonField sampleModule) 0"
    and h8: "(51 / 20 :: real) =
               ((if (0::int) < 6 then 3 * nucleiModification 12 6 else 0)
                 + 3 * nucleiModification 12 (12 - 6))
                * (if (12::int) = 1 then 1 - 938 / 1232 else 1 / real_of_int 12) * 1"
    by (simp_all add: sample_defs nucleiModification_def)
  from lossLength_neutron_uses_proton_table [OF h1 h2 h3 h4 h5 h6 h7 h8, of "[0, 0]"]
  show ?thesis by (simp add: nucleiModification_def)
qed







end
